theory Spec2Isabelle
  imports Main
begin

section \<open>Scope of the model\<close>

text \<open>
  migration.js drives a database through the Sequelize ORM. Every operation of the ORM
  is asynchronous: the caller registers a continuation for success (\<open>.success\<close>) and,
  at some places, one for failure (\<open>.error\<close>). In this model
  \<^item> the outcome of an operation is a parameter (\<open>db_env\<close>): it is decided in the
    world in which the operation is issued, and the continuation that the source
    registers for that outcome runs next;
  \<^item> where the source registers no continuation for a success, nothing more happens
    in that call; where it registers none for a failure, the emitter throws the error
    as an uncaught exception, which the world records (\<open>uncaught\<close>), and nothing more
    happens in that call. What becomes of the process after an uncaught exception is
    outside the module;
  \<^item> a call of \<open>bootstrap\<close> or \<open>runOnce\<close> runs until none of its continuations
    is left. The one place where the source itself interleaves is \<open>bootstrap\<close>: the
    caller's callback runs in the turn that sends the catalogue query, before the
    handler of the answer. \<open>runAllOnce\<close> starts every \<open>runOnce\<close> of its list before
    any of their continuations runs; it is not part of this model;
  \<^item> \<open>console.log\<close> through \<open>logError\<close> is the error log of the world.
\<close>

section \<open>Data model of migration.js\<close>

text \<open>
  A JavaScript value that is either a string or absent (\<open>null\<close>/\<open>undefined\<close>) is a
  \<open>string option\<close>, with \<open>None\<close> for the absent value.

  An error object handed to an \<open>.error(...)\<close> continuation by the ORM or the driver
  carries an optional numeric code (\<open>error.number\<close>, undefined when the driver sets none)
  and its description.
\<close>

record driver_error =
  number :: "int option"
  message :: string

text \<open>
  The two relations declared with \<open>sequelize.define\<close>: \<open>Migration\<close> (table
  \<open>Migrations\<close>) and \<open>MigrationStatement\<close> (table \<open>MigrationStatements\<close>). The
  surrogate key \<open>id\<close> that the ORM adds is \<open>m_id\<close> and \<open>s_id\<close>.
\<close>

record migration_row =
  m_id :: nat
  migration_key :: "string option"

record statement_row =
  s_id :: nat
  migration_id :: nat
  sql_statement :: "string option"
  status :: string
  error_code :: "int option"
  error_info :: "driver_error option"

text \<open>The answer of \<open>sequelize.query\<close>: an error, or the rows (possibly \<open>null\<close>).\<close>

type_synonym query_answer = "driver_error + string list option"

text \<open>
  One call of \<open>logError\<close> prints its \<open>arguments\<close>; an entry of the log is the list of
  the arguments of one call. The message of a failed statement is built in the source
  by string concatenation of a text, \<open>error.number\<close>, a text and the error; the entry
  keeps the four pieces apart.
\<close>

datatype log_arg =
    Text string
  | Num "int option"
  | Err driver_error
  | Key "string option"
  | Sqls "string option list"

text \<open>
  Everything the module reads or writes:
  \<^item> \<open>relations\<close>: the tables that \<open>sync\<close> has created;
  \<^item> \<open>Migrations\<close>, \<open>MigrationStatements\<close>: the rows of the two tables, in insertion order,
    with the next value of each auto-increment key;
  \<^item> \<open>queries\<close>: every SQL text sent through \<open>sequelize.query\<close>, in the order sent,
    with the answer of the database;
  \<^item> \<open>error_log\<close>: the calls of \<open>logError\<close>, in order;
  \<^item> \<open>uncaught\<close>: the errors thrown as uncaught exceptions, in order: an emitter of
    the ORM that emits an error event for which no listener is registered throws it;
  \<^item> \<open>arrays\<close>: the store of JavaScript arrays of SQL texts; an array reference is an
    index into it, and allocation appends.
\<close>

record world =
  relations :: "string list"
  Migrations :: "migration_row list"
  next_migration_id :: nat
  MigrationStatements :: "statement_row list"
  next_statement_id :: nat
  queries :: "(string option \<times> query_answer) list"
  error_log :: "log_arg list list"
  uncaught :: "driver_error list"
  arrays :: "string option list list"

text \<open>
  The database and the ORM are external to the module. Their answers are a parameter:
  each operation asks the environment, in the current world, whether the operation is
  refused (a constraint violation, a lost connection, ...) and with which error;
  \<open>query_answer\<close> gives the answer to a raw SQL text.
\<close>

record db_env =
  sync_error :: "world \<Rightarrow> string \<Rightarrow> driver_error option"
  find_error :: "world \<Rightarrow> string option \<Rightarrow> driver_error option"
  migration_create_error :: "world \<Rightarrow> string option \<Rightarrow> driver_error option"
  statement_create_error :: "world \<Rightarrow> nat \<Rightarrow> string option \<Rightarrow> driver_error option"
  query_answer :: "world \<Rightarrow> string option \<Rightarrow> query_answer"
  save_error :: "world \<Rightarrow> statement_row \<Rightarrow> driver_error option"

section \<open>The ORM operations the module calls\<close>

definition model_sync :: "db_env \<Rightarrow> string \<Rightarrow> world \<Rightarrow> driver_error + world" where
  "model_sync env table w =
     (case sync_error env w table of
        Some e \<Rightarrow> Inl e
      | None \<Rightarrow>
          Inr (if table \<in> set (relations w) then w
               else w\<lparr>relations := relations w @ [table]\<rparr>))"

text \<open>
  \<open>Migration.find({where: {migration_key: key}})\<close> answers the first row with that
  key, or no row. The ORM renders an absent value in a where-clause as \<open>IS NULL\<close>, so
  an absent key matches the rows whose key is absent. \<open>create\<close> appends a row with
  the next value of the auto-increment key and \<open>save\<close> replaces the row with the
  identifier of the object, unless the database refuses.
\<close>

definition Migration_find ::
  "db_env \<Rightarrow> world \<Rightarrow> string option \<Rightarrow> driver_error + migration_row option" where
  "Migration_find env w key =
     (case find_error env w key of
        Some e \<Rightarrow> Inl e
      | None \<Rightarrow> Inr (List.find (\<lambda>m. migration_key m = key) (Migrations w)))"

definition Migration_create ::
  "db_env \<Rightarrow> world \<Rightarrow> string option \<Rightarrow> driver_error + (migration_row \<times> world)" where
  "Migration_create env w key =
     (case migration_create_error env w key of
        Some e \<Rightarrow> Inl e
      | None \<Rightarrow>
          (let migration = \<lparr>m_id = next_migration_id w, migration_key = key\<rparr>
           in Inr (migration,
                   w\<lparr>Migrations := Migrations w @ [migration],
                     next_migration_id := Suc (next_migration_id w)\<rparr>)))"

definition MigrationStatement_create ::
  "db_env \<Rightarrow> world \<Rightarrow> nat \<Rightarrow> string option \<Rightarrow> driver_error + (statement_row \<times> world)" where
  "MigrationStatement_create env w mid sql =
     (case statement_create_error env w mid sql of
        Some e \<Rightarrow> Inl e
      | None \<Rightarrow>
          (let migrationStatement =
                 \<lparr>s_id = next_statement_id w, migration_id = mid, sql_statement = sql,
                  status = ''pending'', error_code = None, error_info = None\<rparr>
           in Inr (migrationStatement,
                   w\<lparr>MigrationStatements := MigrationStatements w @ [migrationStatement],
                     next_statement_id := Suc (next_statement_id w)\<rparr>)))"

definition statement_save :: "db_env \<Rightarrow> statement_row \<Rightarrow> world \<Rightarrow> driver_error + world" where
  "statement_save env statement w =
     (case save_error env w statement of
        Some e \<Rightarrow> Inl e
      | None \<Rightarrow>
          Inr (w\<lparr>MigrationStatements :=
                   map (\<lambda>r. if s_id r = s_id statement then statement else r) (MigrationStatements w)\<rparr>))"

section \<open>The helpers of migration.js\<close>

definition isEmpty :: "string option \<Rightarrow> bool" where
  "isEmpty str = (case str of None \<Rightarrow> True | Some s \<Rightarrow> s = [] \<or> 0 = length s)"

definition normalize_str :: "string option \<Rightarrow> string option" where
  "normalize_str str = (if isEmpty str then None else str)"

definition executeSql :: "db_env \<Rightarrow> string option \<Rightarrow> world \<Rightarrow> query_answer \<times> world" where
  "executeSql env sql w =
     (let answer = query_answer env w sql
      in (answer, w\<lparr>queries := queries w @ [(sql, answer)]\<rparr>))"

definition logError :: "log_arg list \<Rightarrow> world \<Rightarrow> world" where
  "logError args w = w\<lparr>error_log := error_log w @ [args]\<rparr>"

text \<open>
  An error event without a listener: \<open>Migration.find\<close> in \<open>runIfNotExists\<close>,
  \<open>statement.save\<close> in \<open>runPendingStatements\<close> and the two raw queries of
  \<open>bootstrap\<close> have no \<open>.error\<close> handler.
\<close>

definition uncaughtException :: "driver_error \<Rightarrow> world \<Rightarrow> world" where
  "uncaughtException e w = w\<lparr>uncaught := uncaught w @ [e]\<rparr>"

definition runIfNotExists ::
  "db_env \<Rightarrow> string option \<Rightarrow> (world \<Rightarrow> world) \<Rightarrow> world \<Rightarrow> world" where
  "runIfNotExists env key callback w =
     (case Migration_find env w (normalize_str key) of
        Inr migration \<Rightarrow> (if migration = None then callback w else w)
      | Inl e \<Rightarrow> uncaughtException e w)"

text \<open>
  \<open>async.forEachSeries(arr, iterator, callback)\<close> of the async library: the iterator
  runs on one element at a time and reports through the continuation it is given.
  \<^item> \<open>Continue\<close>: the iterator called its continuation with no error; the series goes
    on with the next element, and after the last one the final callback is called
    with no error (also at once, on an empty array);
  \<^item> \<open>Abort err\<close>: the iterator called its continuation with an error; the series
    stops and the final callback is called with that error;
  \<^item> \<open>Stalled\<close>: the iterator never called its continuation (no handler was registered
    for the outcome of an operation); nothing more happens.
\<close>

datatype 'e signal = Continue | Abort 'e | Stalled

fun forEachSeries ::
  "'a list \<Rightarrow> ('a \<Rightarrow> 's \<Rightarrow> 'e signal \<times> 's) \<Rightarrow> ('e option \<Rightarrow> 's \<Rightarrow> 's) \<Rightarrow> 's \<Rightarrow> 's" where
  "forEachSeries [] iterator callback s = callback None s"
| "forEachSeries (x # xs) iterator callback s =
     (case iterator x s of
        (Continue, s') \<Rightarrow> forEachSeries xs iterator callback s'
      | (Abort err, s') \<Rightarrow> callback (Some err) s'
      | (Stalled, s') \<Rightarrow> s')"

text \<open>
  \<open>createPendingStatements\<close>: the local array \<open>statements\<close> travels with the world
  through the series. The final callback of the source takes no parameter: it calls
  \<open>callback(statements)\<close> whether or not the series was aborted.
\<close>

definition createPendingStatements_iterator ::
  "db_env \<Rightarrow> migration_row \<Rightarrow> string option \<Rightarrow> statement_row list \<times> world \<Rightarrow>
     driver_error signal \<times> (statement_row list \<times> world)" where
  "createPendingStatements_iterator env migration sql s =
     (case s of (statements, w) \<Rightarrow>
        (case MigrationStatement_create env w (m_id migration) (normalize_str sql) of
           Inr (migrationStatement, w') \<Rightarrow> (Continue, (statements @ [migrationStatement], w'))
         | Inl e \<Rightarrow> (Abort e, (statements, w))))"

definition createPendingStatements ::
  "db_env \<Rightarrow> migration_row \<Rightarrow> string option list \<Rightarrow>
     (statement_row list \<Rightarrow> world \<Rightarrow> world) \<Rightarrow> world \<Rightarrow> world" where
  "createPendingStatements env migration sqlStatements callback w =
     snd (forEachSeries sqlStatements
            (createPendingStatements_iterator env migration)
            (\<lambda>err s. case s of (statements, w') \<Rightarrow> (statements, callback statements w'))
            ([], w))"

text \<open>
  \<open>runPendingStatements\<close>: the series has no final callback. \<open>statement.save()\<close> has
  a success handler only, so a refused save is thrown as an uncaught exception and
  leaves the series stalled.
\<close>

definition runPendingStatements_iterator ::
  "db_env \<Rightarrow> statement_row \<Rightarrow> world \<Rightarrow> driver_error signal \<times> world" where
  "runPendingStatements_iterator env statement w =
     (case executeSql env (sql_statement statement) w of
        (Inr rows, w1) \<Rightarrow>
          (case statement_save env (statement\<lparr>status := ''success''\<rparr>) w1 of
             Inr w2 \<Rightarrow> (Continue, w2)
           | Inl e \<Rightarrow> (Stalled, uncaughtException e w1))
      | (Inl error, w1) \<Rightarrow>
          (let w2 = logError
                      [Text ''Migration SQL statement failed with error code '',
                       Num (number error), Text '': '', Err error] w1
           in case statement_save env
                     (statement\<lparr>status := ''failure'', error_code := number error,
                                error_info := Some error\<rparr>) w2 of
                Inr w3 \<Rightarrow> (Abort error, w3)
              | Inl e \<Rightarrow> (Stalled, uncaughtException e w2)))"

definition runPendingStatements :: "db_env \<Rightarrow> statement_row list \<Rightarrow> world \<Rightarrow> world" where
  "runPendingStatements env statements_list w =
     forEachSeries statements_list (runPendingStatements_iterator env) (\<lambda>err w'. w') w"

section \<open>The public interface\<close>

definition fk_select :: string where
  "fk_select =
     ''select constraint_name from information_schema.KEY_COLUMN_USAGE where table_name = ''
     @ [CHR 0x27] @ ''MigrationStatements'' @ [CHR 0x27]"

definition fk_alter :: string where
  "fk_alter =
     ''ALTER TABLE MigrationStatements ADD CONSTRAINT MigrationStatements_migration_id_fk FOREIGN KEY (migration_id) REFERENCES Migrations(id) ON DELETE CASCADE''"

text \<open>
  \<open>Migration.bootstrap\<close>. The catalogue query is sent, then the caller's callback (a
  world transformer, absent when the caller passes none) runs in the same turn; the
  handler of the query's answer runs after it. \<open>bootstrap_constraint_step\<close> is that
  handler (lines 138 to 142): the query has a success continuation only, and the
  \<open>ALTER TABLE\<close> it sends has no continuation at all.
\<close>

definition bootstrap_constraint_step :: "db_env \<Rightarrow> query_answer \<Rightarrow> world \<Rightarrow> world" where
  "bootstrap_constraint_step env answer w =
     (case answer of
        Inr rows \<Rightarrow>
          (if rows = None \<or> (case rows of Some r \<Rightarrow> length r = 0 | None \<Rightarrow> False)
           then (case executeSql env (Some fk_alter) w of
                   (Inr done, w') \<Rightarrow> w'
                 | (Inl e, w') \<Rightarrow> uncaughtException e w')
           else w)
      | Inl e \<Rightarrow> uncaughtException e w)"

definition bootstrap :: "db_env \<Rightarrow> (world \<Rightarrow> world) option \<Rightarrow> world \<Rightarrow> world" where
  "bootstrap env callback w =
     (case model_sync env ''Migrations'' w of
        Inl error \<Rightarrow> logError [Text ''Failed to run Migration.sync'', Err error] w
      | Inr w1 \<Rightarrow>
          (case model_sync env ''MigrationStatements'' w1 of
             Inl error \<Rightarrow> logError [Text ''Failed to run MigrationStatement.sync'', Err error] w1
           | Inr w2 \<Rightarrow>
               (case executeSql env (Some fk_select) w2 of
                  (answer, w3) \<Rightarrow>
                    bootstrap_constraint_step env answer
                      (case callback of Some cb \<Rightarrow> cb w3 | None \<Rightarrow> w3))))"

text \<open>
  The \<open>sqlStatements\<close> argument of \<open>runOnce\<close> is a string (or an absent value) or a
  reference to an array. \<open>slice()\<close> and the literal \<open>[sqlStatements]\<close> both allocate a
  new array. A reference of a running program always points into the store; a
  reference outside it reads as the empty array.
\<close>

datatype sql_arg = Str "string option" | Arr nat

definition read_array :: "world \<Rightarrow> nat \<Rightarrow> string option list" where
  "read_array w r = (if r < length (arrays w) then arrays w ! r else [])"

definition new_array :: "string option list \<Rightarrow> world \<Rightarrow> nat \<times> world" where
  "new_array xs w = (length (arrays w), w\<lparr>arrays := arrays w @ [xs]\<rparr>)"

definition slice :: "nat \<Rightarrow> world \<Rightarrow> nat \<times> world" where
  "slice r w = new_array (read_array w r) w"

text \<open>
  \<open>runOnce_create\<close> is the continuation that \<open>runOnce\<close> hands to \<open>runIfNotExists\<close>
  (lines 163 to 171); \<open>copy\<close> is the reference to the private copy of the argument.
\<close>

definition runOnce_create :: "db_env \<Rightarrow> string option \<Rightarrow> nat \<Rightarrow> world \<Rightarrow> world" where
  "runOnce_create env key copy w =
     (case Migration_create env w (normalize_str key) of
        Inr (migration, w1) \<Rightarrow>
          createPendingStatements env migration (read_array w1 copy)
            (\<lambda>statements_list. runPendingStatements env statements_list) w1
      | Inl e \<Rightarrow>
          logError [Text ''Failed to create migration'', Key key, Sqls (read_array w copy)] w)"

definition runOnce :: "db_env \<Rightarrow> string option \<Rightarrow> sql_arg \<Rightarrow> world \<Rightarrow> world" where
  "runOnce env key sqlStatements w =
     (case (case sqlStatements of Arr r \<Rightarrow> slice r w | Str s \<Rightarrow> new_array [s] w) of
        (copy, w0) \<Rightarrow> runIfNotExists env key (runOnce_create env key copy) w0)"

section \<open>What a batch looks like\<close>

text \<open>
  The row that \<open>MigrationStatement.create\<close> inserts for a SQL text, and the rows
  of a batch of SQL texts inserted one after the other from identifier \<open>sid\<close> on;
  \<open>with_pending\<close> is the world after these insertions.
\<close>

definition pending_row :: "nat \<Rightarrow> nat \<Rightarrow> string option \<Rightarrow> statement_row" where
  "pending_row sid mid sql =
     \<lparr>s_id = sid, migration_id = mid, sql_statement = normalize_str sql,
      status = ''pending'', error_code = None, error_info = None\<rparr>"

fun pending_rows :: "nat \<Rightarrow> nat \<Rightarrow> string option list \<Rightarrow> statement_row list" where
  "pending_rows sid mid [] = []"
| "pending_rows sid mid (sql # sqls) = pending_row sid mid sql # pending_rows (Suc sid) mid sqls"

definition with_pending :: "world \<Rightarrow> nat \<Rightarrow> string option list \<Rightarrow> world" where
  "with_pending w mid sqls =
     w\<lparr>MigrationStatements :=
         MigrationStatements w @ pending_rows (next_statement_id w) mid sqls,
       next_statement_id := next_statement_id w + length sqls\<rparr>"

text \<open>
  The object that \<open>runPendingStatements\<close> saves after a successful query, and after a
  query that failed with \<open>error\<close>.
\<close>

definition marked_success :: "statement_row \<Rightarrow> statement_row" where
  "marked_success statement = statement\<lparr>status := ''success''\<rparr>"

definition marked_failure :: "driver_error \<Rightarrow> statement_row \<Rightarrow> statement_row" where
  "marked_failure error statement =
     statement\<lparr>status := ''failure'', error_code := number error, error_info := Some error\<rparr>"

text \<open>The SQL texts that the \<open>sqlStatements\<close> argument of \<open>runOnce\<close> stands for.\<close>

definition sql_list :: "world \<Rightarrow> sql_arg \<Rightarrow> string option list" where
  "sql_list w sqlStatements =
     (case sqlStatements of Str s \<Rightarrow> [s] | Arr r \<Rightarrow> read_array w r)"

text \<open>
  The world right after \<open>runOnce\<close> has taken its private copy of the argument
  (line 162 of migration.js): only the array store has grown, by the copy.
\<close>

definition with_copy :: "world \<Rightarrow> sql_arg \<Rightarrow> world" where
  "with_copy w sqlStatements = w\<lparr>arrays := arrays w @ [sql_list w sqlStatements]\<rparr>"

text \<open>
  The world in which \<open>createPendingStatements\<close> starts: \<open>runOnce\<close> has taken its
  copy and \<open>Migration.create\<close> has inserted the row of the normalised key.
\<close>

definition with_migration :: "world \<Rightarrow> string option \<Rightarrow> sql_arg \<Rightarrow> world" where
  "with_migration w key sqlStatements =
     (with_copy w sqlStatements)
       \<lparr>Migrations := Migrations w @
          [\<lparr>m_id = next_migration_id w, migration_key = normalize_str key\<rparr>],
        next_migration_id := Suc (next_migration_id w)\<rparr>"

section \<open>Invariants and example databases\<close>

text \<open>
  The auto-increment keys: every identifier in a table lies below the next value of
  its key, and a statement row refers to a migration identifier that has been issued.
\<close>

definition ids_below :: "world \<Rightarrow> bool" where
  "ids_below w =
     (list_all (\<lambda>m. m_id m < next_migration_id w) (Migrations w) \<and>
      list_all (\<lambda>r. s_id r < next_statement_id w \<and> migration_id r < next_migration_id w)
        (MigrationStatements w))"

text \<open>
  A database that enforces the declared schema (\<open>allowNull: false\<close> on
  \<open>migration_key\<close> and \<open>sql_statement\<close>, \<open>unique: true\<close> on \<open>migration_key\<close>) and
  refuses nothing else. A SQL text succeeds the first time it is run and fails with
  error 1060 (duplicate column name) when it is run again.
\<close>

definition not_null_error :: driver_error where
  "not_null_error = \<lparr>number = Some 1048, message = ''Column cannot be null''\<rparr>"

definition duplicate_entry_error :: driver_error where
  "duplicate_entry_error = \<lparr>number = Some 1062, message = ''Duplicate entry''\<rparr>"

definition duplicate_column_error :: driver_error where
  "duplicate_column_error = \<lparr>number = Some 1060, message = ''Duplicate column name''\<rparr>"

definition mysql :: db_env where
  "mysql =
     \<lparr>sync_error = (\<lambda>w table. None),
      find_error = (\<lambda>w key. None),
      migration_create_error =
        (\<lambda>w key. if key = None then Some not_null_error
                  else if key \<in> set (map migration_key (Migrations w))
                  then Some duplicate_entry_error else None),
      statement_create_error =
        (\<lambda>w mid sql. if sql = None then Some not_null_error else None),
      query_answer =
        (\<lambda>w sql. if sql \<in> set (map fst (queries w))
                  then Inl duplicate_column_error else Inr None),
      save_error = (\<lambda>w statement. None)\<rparr>"

text \<open>A database that accepts every operation, and one that is out of reach.\<close>

definition permissive :: db_env where
  "permissive =
     \<lparr>sync_error = (\<lambda>w table. None),
      find_error = (\<lambda>w key. None),
      migration_create_error = (\<lambda>w key. None),
      statement_create_error = (\<lambda>w mid sql. None),
      query_answer = (\<lambda>w sql. Inr None),
      save_error = (\<lambda>w statement. None)\<rparr>"

definition connection_error :: driver_error where
  "connection_error = \<lparr>number = None, message = ''Connection lost''\<rparr>"

definition offline :: db_env where
  "offline =
     \<lparr>sync_error = (\<lambda>w table. Some connection_error),
      find_error = (\<lambda>w key. Some connection_error),
      migration_create_error = (\<lambda>w key. Some connection_error),
      statement_create_error = (\<lambda>w mid sql. Some connection_error),
      query_answer = (\<lambda>w sql. Inl connection_error),
      save_error = (\<lambda>w statement. Some connection_error)\<rparr>"

definition fresh :: world where
  "fresh =
     \<lparr>relations = [], Migrations = [], next_migration_id = 1,
      MigrationStatements = [], next_statement_id = 1,
      queries = [], error_log = [], uncaught = [], arrays = []\<rparr>"

text \<open>
  Worlds and databases used as concrete inputs further down:
  \<^item> \<open>taken\<close>: the key \<open>add_col\<close> has been inserted already;
  \<^item> \<open>callers_array\<close>, \<open>duplicate_column\<close>, \<open>empty_statement\<close>: a fresh database and
    one array of the caller in the store;
  \<^item> \<open>statements_table_refused\<close>: the second relation cannot be created;
    \<open>no_catalogue\<close>: every raw query fails; \<open>read_only\<close>: every save is refused;
  \<^item> \<open>synced\<close>: both relations exist;
  \<^item> \<open>two_stmts\<close>: a batch of three pending rows, the first two with the same SQL
    text; \<open>first_done\<close>: the same after the first row has run.
\<close>

definition taken :: world where
  "taken = fresh\<lparr>Migrations := [\<lparr>m_id = 1, migration_key = Some ''add_col''\<rparr>],
                  next_migration_id := 2\<rparr>"

definition callers_array :: world where
  "callers_array = fresh\<lparr>arrays := [[Some ''SQL1'']]\<rparr>"

definition statements_table_refused :: db_env where
  "statements_table_refused =
     permissive\<lparr>sync_error :=
       (\<lambda>w table. if table = ''MigrationStatements'' then Some connection_error else None)\<rparr>"

definition no_catalogue :: db_env where
  "no_catalogue = permissive\<lparr>query_answer := (\<lambda>w sql. Inl connection_error)\<rparr>"

definition synced :: world where
  "synced = fresh\<lparr>relations := [''Migrations'', ''MigrationStatements'']\<rparr>"

definition two_stmts :: world where
  "two_stmts =
     \<lparr>relations = [], Migrations = [\<lparr>m_id = 1, migration_key = Some ''two_stmts''\<rparr>],
      next_migration_id = 2,
      MigrationStatements =
        [pending_row 1 1 (Some ''SQL1''), pending_row 2 1 (Some ''SQL1''),
         pending_row 3 1 (Some ''SQL2'')],
      next_statement_id = 4, queries = [], error_log = [], uncaught = [], arrays = []\<rparr>"

definition first_done :: world where
  "first_done =
     two_stmts\<lparr>queries := [(Some ''SQL1'', Inr None)],
               MigrationStatements :=
                 [(pending_row 1 1 (Some ''SQL1''))\<lparr>status := ''success''\<rparr>,
                  pending_row 2 1 (Some ''SQL1''), pending_row 3 1 (Some ''SQL2'')]\<rparr>"

definition read_only :: db_env where
  "read_only = permissive\<lparr>save_error := (\<lambda>w statement. Some connection_error)\<rparr>"

definition duplicate_column :: world where
  "duplicate_column = fresh\<lparr>arrays := [[Some ''SQL1'', Some ''SQL1'', Some ''SQL2'']]\<rparr>"

definition empty_statement :: world where
  "empty_statement = fresh\<lparr>arrays := [[Some ''SQL1'', Some '''', Some ''SQL2'']]\<rparr>"

section \<open>Normalisation\<close>

lemma normalize_str_simps:
  "normalize_str None = None"
  "normalize_str (Some []) = None"
  "s \<noteq> [] \<Longrightarrow> normalize_str (Some s) = Some s"
  by (simp_all add: normalize_str_def isEmpty_def)

lemma normalize_str_not_empty: "normalize_str k \<noteq> Some []"
  by (cases k) (auto simp: normalize_str_def isEmpty_def)

section \<open>Series, creation and execution: helper lemmas\<close>

lemma forEachSeries_invariant:
  assumes step: "\<And>x s sig s'. x \<in> set xs \<Longrightarrow> P s \<Longrightarrow> iterator x s = (sig, s') \<Longrightarrow> P s'"
    and final: "\<And>e s. P s \<Longrightarrow> P (callback e s)"
    and init: "P s"
  shows "P (forEachSeries xs iterator callback s)"
  using step init
proof (induction xs arbitrary: s)
  case Nil
  then show ?case by (simp add: final)
next
  case (Cons x xs)
  obtain sig s' where it: "iterator x s = (sig, s')" by (cases "iterator x s")
  have P': "P s'" using Cons.prems(1)[of x s sig s'] Cons.prems(2) it by simp
  show ?case
  proof (cases sig)
    case Continue
    have "P (forEachSeries xs iterator callback s')"
      by (rule Cons.IH) (use Cons.prems(1) P' in auto)
    then show ?thesis using it Continue by simp
  next
    case (Abort e)
    then show ?thesis using it P' final by simp
  next
    case Stalled
    then show ?thesis using it P' by simp
  qed
qed

lemma with_pending_Nil: "with_pending w mid [] = w"
  by (simp add: with_pending_def)

lemma with_pending_Cons:
  "with_pending w mid (x # xs) = with_pending (with_pending w mid [x]) mid xs"
  by (simp add: with_pending_def)

lemma create_iterator_accepted:
  assumes "statement_create_error env w (m_id m) (normalize_str x) = None"
  shows "createPendingStatements_iterator env m x (acc, w) =
           (Continue, (acc @ [pending_row (next_statement_id w) (m_id m) x], with_pending w (m_id m) [x]))"
  using assms
  by (simp add: createPendingStatements_iterator_def MigrationStatement_create_def
      pending_row_def with_pending_def Let_def)

lemma create_iterator_refused:
  assumes "statement_create_error env w (m_id m) (normalize_str x) = Some e"
  shows "createPendingStatements_iterator env m x (acc, w) = (Abort e, (acc, w))"
  using assms
  by (simp add: createPendingStatements_iterator_def MigrationStatement_create_def)

lemma create_series:
  "\<exists>n\<le>length sqls.
     forEachSeries sqls (createPendingStatements_iterator env m)
       (\<lambda>err s. case s of (statements, w') \<Rightarrow> (statements, callback statements w')) (acc, w)
     = (acc @ pending_rows (next_statement_id w) (m_id m) (take n sqls),
        callback (acc @ pending_rows (next_statement_id w) (m_id m) (take n sqls))
          (with_pending w (m_id m) (take n sqls))) \<and>
     (\<forall>i<n. statement_create_error env (with_pending w (m_id m) (take i sqls)) (m_id m)
              (normalize_str (sqls ! i)) = None) \<and>
     (n < length sqls \<longrightarrow>
        statement_create_error env (with_pending w (m_id m) (take n sqls)) (m_id m)
          (normalize_str (sqls ! n)) \<noteq> None)"
proof (induction sqls arbitrary: acc w)
  case Nil
  show ?case by (simp add: with_pending_Nil)
next
  case (Cons x xs)
  show ?case
  proof (cases "statement_create_error env w (m_id m) (normalize_str x)")
    case (Some e)
    have "forEachSeries (x # xs) (createPendingStatements_iterator env m)
       (\<lambda>err s. case s of (statements, w') \<Rightarrow> (statements, callback statements w')) (acc, w)
       = (acc, callback acc w)"
      by (simp add: create_iterator_refused[OF Some])
    then show ?thesis using Some
      by (intro exI[of _ 0]) (simp add: with_pending_Nil)
  next
    case None
    let ?w1 = "with_pending w (m_id m) [x]"
    let ?acc1 = "acc @ [pending_row (next_statement_id w) (m_id m) x]"
    have nx: "next_statement_id ?w1 = Suc (next_statement_id w)"
      by (simp add: with_pending_def)
    obtain n where n: "n \<le> length xs"
      and run: "forEachSeries xs (createPendingStatements_iterator env m)
       (\<lambda>err s. case s of (statements, w') \<Rightarrow> (statements, callback statements w')) (?acc1, ?w1)
     = (?acc1 @ pending_rows (next_statement_id ?w1) (m_id m) (take n xs),
        callback (?acc1 @ pending_rows (next_statement_id ?w1) (m_id m) (take n xs))
          (with_pending ?w1 (m_id m) (take n xs)))"
      and acc: "\<forall>i<n. statement_create_error env (with_pending ?w1 (m_id m) (take i xs)) (m_id m)
              (normalize_str (xs ! i)) = None"
      and ref: "n < length xs \<longrightarrow>
        statement_create_error env (with_pending ?w1 (m_id m) (take n xs)) (m_id m)
          (normalize_str (xs ! n)) \<noteq> None"
      using Cons.IH[of ?acc1 ?w1] by blast
    have wp: "\<And>ys. with_pending ?w1 (m_id m) ys = with_pending w (m_id m) (x # ys)"
      by (simp add: with_pending_Cons[symmetric])
    have 1: "forEachSeries (x # xs) (createPendingStatements_iterator env m)
       (\<lambda>err s. case s of (statements, w') \<Rightarrow> (statements, callback statements w')) (acc, w)
     = (acc @ pending_rows (next_statement_id w) (m_id m) (take (Suc n) (x # xs)),
        callback (acc @ pending_rows (next_statement_id w) (m_id m) (take (Suc n) (x # xs)))
          (with_pending w (m_id m) (take (Suc n) (x # xs))))"
      using run by (simp add: create_iterator_accepted[OF None] nx wp)
    have 2: "\<forall>i<Suc n. statement_create_error env (with_pending w (m_id m) (take i (x # xs))) (m_id m)
              (normalize_str ((x # xs) ! i)) = None"
    proof (intro allI impI)
      fix i assume "i < Suc n"
      show "statement_create_error env (with_pending w (m_id m) (take i (x # xs))) (m_id m)
              (normalize_str ((x # xs) ! i)) = None"
      proof (cases i)
        case 0
        then show ?thesis using None by (simp add: with_pending_Nil)
      next
        case (Suc j)
        then show ?thesis using acc \<open>i < Suc n\<close> by (simp add: wp)
      qed
    qed
    have 3: "Suc n < length (x # xs) \<longrightarrow>
        statement_create_error env (with_pending w (m_id m) (take (Suc n) (x # xs))) (m_id m)
          (normalize_str ((x # xs) ! Suc n)) \<noteq> None"
      using ref by (simp add: wp)
    show ?thesis
      using n 1 2 3 by (intro exI[of _ "Suc n"]) simp
  qed
qed

lemma run_iterator_step:
  assumes "runPendingStatements_iterator env st w = (sig, w1)"
  shows "\<exists>a st'. queries w1 = queries w @ [(sql_statement st, a)] \<and>
           a = query_answer env w (sql_statement st) \<and>
           (sig = Continue \<longrightarrow> \<not> isl a) \<and>
           (sig \<noteq> Continue \<longrightarrow>
              isl a \<or>
              (\<exists>e. save_error env (w\<lparr>queries := queries w @ [(sql_statement st, a)]\<rparr>)
                     (marked_success st) = Some e)) \<and>
           (MigrationStatements w1 = MigrationStatements w \<or>
            MigrationStatements w1 =
              map (\<lambda>r. if s_id r = s_id st then st' else r) (MigrationStatements w)) \<and>
           s_id st' = s_id st \<and> sql_statement st' = sql_statement st \<and>
           migration_id st' = migration_id st \<and>
           arrays w1 = arrays w \<and> Migrations w1 = Migrations w \<and>
           next_migration_id w1 = next_migration_id w \<and>
           next_statement_id w1 = next_statement_id w \<and> relations w1 = relations w"
proof (cases "query_answer env w (sql_statement st)")
  case (Inl error)
  show ?thesis
    using assms Inl
    by (intro exI[of _ "Inl error"]
        exI[of _ "st\<lparr>status := ''failure'', error_code := number error, error_info := Some error\<rparr>"])
       (auto simp: runPendingStatements_iterator_def executeSql_def statement_save_def
        logError_def uncaughtException_def Let_def split: option.splits)
next
  case (Inr rows)
  show ?thesis
    using assms Inr
    by (intro exI[of _ "Inr rows"] exI[of _ "st\<lparr>status := ''success''\<rparr>"])
       (auto simp: runPendingStatements_iterator_def executeSql_def statement_save_def
        uncaughtException_def marked_success_def Let_def split: option.splits)
qed

lemma run_series:
  "\<exists>k qs. k \<le> length sts \<and>
     queries (runPendingStatements env sts w) = queries w @ qs \<and> length qs = k \<and>
     map fst qs = map sql_statement (take k sts) \<and>
     (\<forall>i. Suc i < k \<longrightarrow> \<not> isl (snd (qs ! i))) \<and>
     (sts \<noteq> [] \<longrightarrow> 0 < k) \<and>
     (\<forall>i<k. \<exists>v. queries v = queries w @ take i qs \<and>
                snd (qs ! i) = query_answer env v (sql_statement (sts ! i))) \<and>
     (k < length sts \<longrightarrow>
        isl (snd (last qs)) \<or>
        (\<exists>v e. queries v = queries w @ qs \<and>
               save_error env v (marked_success (sts ! (k - 1))) = Some e)) \<and>
     length (MigrationStatements (runPendingStatements env sts w)) = length (MigrationStatements w) \<and>
     (\<forall>j<length (MigrationStatements w).
        s_id (MigrationStatements w ! j) \<notin> s_id ` set (take k sts) \<longrightarrow>
        MigrationStatements (runPendingStatements env sts w) ! j = MigrationStatements w ! j)"
proof (induction sts arbitrary: w)
  case Nil
  show ?case by (simp add: runPendingStatements_def)
next
  case (Cons st sts)
  obtain sig w1 where it: "runPendingStatements_iterator env st w = (sig, w1)"
    by (cases "runPendingStatements_iterator env st w")
  obtain a st' where q1: "queries w1 = queries w @ [(sql_statement st, a)]"
    and ans: "a = query_answer env w (sql_statement st)"
    and ok: "sig = Continue \<longrightarrow> \<not> isl a"
    and stop: "sig \<noteq> Continue \<longrightarrow>
              isl a \<or>
              (\<exists>e. save_error env (w\<lparr>queries := queries w @ [(sql_statement st, a)]\<rparr>)
                     (marked_success st) = Some e)"
    and tab: "MigrationStatements w1 = MigrationStatements w \<or>
            MigrationStatements w1 =
              map (\<lambda>r. if s_id r = s_id st then st' else r) (MigrationStatements w)"
    and sid: "s_id st' = s_id st"
    using run_iterator_step[OF it] by blast
  have len1: "length (MigrationStatements w1) = length (MigrationStatements w)"
    using tab by auto
  have ids1: "\<And>j. j < length (MigrationStatements w) \<Longrightarrow>
      s_id (MigrationStatements w1 ! j) = s_id (MigrationStatements w ! j)"
    using tab sid by auto
  have keep1: "\<And>j. j < length (MigrationStatements w) \<Longrightarrow>
      s_id (MigrationStatements w ! j) \<noteq> s_id st \<Longrightarrow>
      MigrationStatements w1 ! j = MigrationStatements w ! j"
    using tab by auto
  show ?case
  proof (cases "sig = Continue")
    case False
    have res: "runPendingStatements env (st # sts) w = w1"
      using it False by (cases sig) (simp_all add: runPendingStatements_def)
    have first: "\<exists>v. queries v = queries w \<and> a = query_answer env v (sql_statement st)"
      using ans by blast
    have halt: "isl a \<or>
        (\<exists>v e. queries v = queries w @ [(sql_statement st, a)] \<and>
               save_error env v (marked_success st) = Some e)"
    proof -
      from stop False consider "isl a"
        | e where "save_error env (w\<lparr>queries := queries w @ [(sql_statement st, a)]\<rparr>)
                     (marked_success st) = Some e"
        by blast
      then show ?thesis
      proof cases
        case 1
        then show ?thesis by simp
      next
        case 2
        have "queries (w\<lparr>queries := queries w @ [(sql_statement st, a)]\<rparr>) =
            queries w @ [(sql_statement st, a)]" by simp
        then show ?thesis using 2 by blast
      qed
    qed
    show ?thesis
      unfolding res
      apply (rule exI[of _ "Suc 0"], rule exI[of _ "[(sql_statement st, a)]"])
      using first halt by (simp add: q1 len1 keep1)
  next
    case True
    have res: "runPendingStatements env (st # sts) w = runPendingStatements env sts w1"
      using it True by (simp add: runPendingStatements_def)
    obtain k qs where k: "k \<le> length sts"
      and q: "queries (runPendingStatements env sts w1) = queries w1 @ qs"
      and lq: "length qs = k"
      and fq: "map fst qs = map sql_statement (take k sts)"
      and last: "\<forall>i. Suc i < k \<longrightarrow> \<not> isl (snd (qs ! i))"
      and pos: "sts \<noteq> [] \<longrightarrow> 0 < k"
      and answers: "\<forall>i<k. \<exists>v. queries v = queries w1 @ take i qs \<and>
                snd (qs ! i) = query_answer env v (sql_statement (sts ! i))"
      and halt: "k < length sts \<longrightarrow>
        isl (snd (last qs)) \<or>
        (\<exists>v e. queries v = queries w1 @ qs \<and>
               save_error env v (marked_success (sts ! (k - 1))) = Some e)"
      and len: "length (MigrationStatements (runPendingStatements env sts w1)) =
                length (MigrationStatements w1)"
      and keep: "\<forall>j<length (MigrationStatements w1).
        s_id (MigrationStatements w1 ! j) \<notin> s_id ` set (take k sts) \<longrightarrow>
        MigrationStatements (runPendingStatements env sts w1) ! j = MigrationStatements w1 ! j"
      using Cons.IH[of w1] by blast
    let ?qs = "(sql_statement st, a) # qs"
    have last': "\<forall>i. Suc i < Suc k \<longrightarrow> \<not> isl (snd (?qs ! i))"
    proof (intro allI impI)
      fix i assume "Suc i < Suc k"
      then show "\<not> isl (snd (?qs ! i))"
        using ok True last by (cases i) auto
    qed
    have answers': "\<forall>i<Suc k. \<exists>v. queries v = queries w @ take i ?qs \<and>
                snd (?qs ! i) = query_answer env v (sql_statement ((st # sts) ! i))"
    proof (intro allI impI)
      fix i assume i: "i < Suc k"
      show "\<exists>v. queries v = queries w @ take i ?qs \<and>
                snd (?qs ! i) = query_answer env v (sql_statement ((st # sts) ! i))"
      proof (cases i)
        case 0
        then show ?thesis using ans by (intro exI[of _ w]) simp
      next
        case (Suc i')
        then obtain v where "queries v = queries w1 @ take i' qs"
          and "snd (qs ! i') = query_answer env v (sql_statement (sts ! i'))"
          using answers i by auto
        then show ?thesis using Suc by (intro exI[of _ v]) (simp add: q1)
      qed
    qed
    have halt': "Suc k < length (st # sts) \<longrightarrow>
        isl (snd (last ?qs)) \<or>
        (\<exists>v e. queries v = queries w @ ?qs \<and>
               save_error env v (marked_success ((st # sts) ! (Suc k - 1))) = Some e)"
    proof
      assume "Suc k < length (st # sts)"
      then have kl: "k < length sts" by simp
      then have kpos: "0 < k" using pos by auto
      then have ne: "qs \<noteq> []" using lq by auto
      have idx: "(st # sts) ! (Suc k - 1) = sts ! (k - 1)" using kpos by (cases k) simp_all
      from halt kl consider "isl (snd (last qs))"
        | v e where "queries v = queries w1 @ qs"
            "save_error env v (marked_success (sts ! (k - 1))) = Some e"
        by blast
      then show "isl (snd (last ?qs)) \<or>
        (\<exists>v e. queries v = queries w @ ?qs \<and>
               save_error env v (marked_success ((st # sts) ! (Suc k - 1))) = Some e)"
      proof cases
        case 1
        then show ?thesis using ne by simp
      next
        case 2
        have "queries v = queries w @ ?qs" using 2(1) by (simp add: q1)
        then show ?thesis using 2(2) idx by auto
      qed
    qed
    have keep': "\<forall>j<length (MigrationStatements w).
        s_id (MigrationStatements w ! j) \<notin> s_id ` set (take (Suc k) (st # sts)) \<longrightarrow>
        MigrationStatements (runPendingStatements env sts w1) ! j = MigrationStatements w ! j"
    proof (intro allI impI)
      fix j assume j: "j < length (MigrationStatements w)"
        and notin: "s_id (MigrationStatements w ! j) \<notin> s_id ` set (take (Suc k) (st # sts))"
      have a: "s_id (MigrationStatements w ! j) \<noteq> s_id st" using notin by auto
      have b: "s_id (MigrationStatements w1 ! j) \<notin> s_id ` set (take k sts)"
        using notin ids1[OF j] by auto
      show "MigrationStatements (runPendingStatements env sts w1) ! j = MigrationStatements w ! j"
        using keep j len1 b keep1[OF j a] by simp
    qed
    show ?thesis
      unfolding res
      apply (rule exI[of _ "Suc k"], rule exI[of _ ?qs])
      using k q lq fq last' len keep' answers' halt'
      by (simp add: q1 len1)
  qed
qed

lemma create_result:
  "\<exists>n\<le>length sqls.
     createPendingStatements env m sqls callback w =
       callback (pending_rows (next_statement_id w) (m_id m) (take n sqls))
         (with_pending w (m_id m) (take n sqls)) \<and>
     (\<forall>i<n. statement_create_error env (with_pending w (m_id m) (take i sqls)) (m_id m)
              (normalize_str (sqls ! i)) = None) \<and>
     (n < length sqls \<longrightarrow>
        statement_create_error env (with_pending w (m_id m) (take n sqls)) (m_id m)
          (normalize_str (sqls ! n)) \<noteq> None)"
  using create_series[of sqls env m callback "[]" w]
  by (auto simp: createPendingStatements_def)

lemma run_frame:
  "arrays (runPendingStatements env sts w) = arrays w \<and>
   Migrations (runPendingStatements env sts w) = Migrations w \<and>
   next_migration_id (runPendingStatements env sts w) = next_migration_id w \<and>
   next_statement_id (runPendingStatements env sts w) = next_statement_id w \<and>
   relations (runPendingStatements env sts w) = relations w"
  unfolding runPendingStatements_def
proof (rule forEachSeries_invariant
    [where P = "\<lambda>v. arrays v = arrays w \<and> Migrations v = Migrations w \<and>
       next_migration_id v = next_migration_id w \<and>
       next_statement_id v = next_statement_id w \<and> relations v = relations w"])
  fix x s sig s'
  assume "arrays s = arrays w \<and> Migrations s = Migrations w \<and>
       next_migration_id s = next_migration_id w \<and>
       next_statement_id s = next_statement_id w \<and> relations s = relations w"
    and "runPendingStatements_iterator env x s = (sig, s')"
  then show "arrays s' = arrays w \<and> Migrations s' = Migrations w \<and>
       next_migration_id s' = next_migration_id w \<and>
       next_statement_id s' = next_statement_id w \<and> relations s' = relations w"
    using run_iterator_step[of env x s sig s'] by auto
qed simp_all

lemma with_pending_frame:
  "arrays (with_pending w mid xs) = arrays w"
  "Migrations (with_pending w mid xs) = Migrations w"
  "next_migration_id (with_pending w mid xs) = next_migration_id w"
  "relations (with_pending w mid xs) = relations w"
  "queries (with_pending w mid xs) = queries w"
  "error_log (with_pending w mid xs) = error_log w"
  "next_statement_id (with_pending w mid xs) = next_statement_id w + length xs"
  "MigrationStatements (with_pending w mid xs) =
     MigrationStatements w @ pending_rows (next_statement_id w) mid xs"
  by (simp_all add: with_pending_def)

lemma create_run_frame:
  "arrays (createPendingStatements env m sqls (runPendingStatements env) w) = arrays w \<and>
   Migrations (createPendingStatements env m sqls (runPendingStatements env) w) = Migrations w \<and>
   next_migration_id (createPendingStatements env m sqls (runPendingStatements env) w)
     = next_migration_id w \<and>
   relations (createPendingStatements env m sqls (runPendingStatements env) w) = relations w"
proof -
  obtain n where "createPendingStatements env m sqls (runPendingStatements env) w =
       runPendingStatements env (pending_rows (next_statement_id w) (m_id m) (take n sqls))
         (with_pending w (m_id m) (take n sqls))"
    using create_result[of sqls env m "runPendingStatements env" w] by blast
  then show ?thesis by (simp add: run_frame with_pending_frame)
qed

lemma runOnce_unfold:
  "runOnce env key a w =
     runIfNotExists env key (runOnce_create env key (length (arrays w))) (with_copy w a)"
  by (cases a) (simp_all add: runOnce_def slice_def new_array_def sql_list_def with_copy_def)

lemma with_copy_frame:
  "Migrations (with_copy w a) = Migrations w"
  "MigrationStatements (with_copy w a) = MigrationStatements w"
  "next_migration_id (with_copy w a) = next_migration_id w"
  "next_statement_id (with_copy w a) = next_statement_id w"
  "queries (with_copy w a) = queries w"
  "error_log (with_copy w a) = error_log w"
  "uncaught (with_copy w a) = uncaught w"
  "relations (with_copy w a) = relations w"
  "arrays (with_copy w a) = arrays w @ [sql_list w a]"
  "read_array (with_copy w a) (length (arrays w)) = sql_list w a"
  by (simp_all add: with_copy_def read_array_def)

lemma runOnce_create_frame:
  "arrays (runOnce_create env key copy w) = arrays w \<and>
   relations (runOnce_create env key copy w) = relations w \<and>
   (Migrations (runOnce_create env key copy w) = Migrations w \<or>
    Migrations (runOnce_create env key copy w) =
      Migrations w @ [\<lparr>m_id = next_migration_id w, migration_key = normalize_str key\<rparr>])"
proof (cases "migration_create_error env w (normalize_str key)")
  case (Some e)
  then show ?thesis
    by (simp add: runOnce_create_def Migration_create_def logError_def)
next
  case None
  then show ?thesis
    by (simp add: runOnce_create_def Migration_create_def Let_def create_run_frame)
qed

lemma runOnce_frame:
  "arrays (runOnce env key a w) = arrays w @ [sql_list w a] \<and>
   relations (runOnce env key a w) = relations w \<and>
   (Migrations (runOnce env key a w) = Migrations w \<or>
    Migrations (runOnce env key a w) =
      Migrations w @ [\<lparr>m_id = next_migration_id w, migration_key = normalize_str key\<rparr>])"
  using runOnce_create_frame[of env key "length (arrays w)" "with_copy w a"]
  by (auto simp: runOnce_unfold runIfNotExists_def with_copy_frame uncaughtException_def
      split: sum.splits)

lemma find_existing:
  "m \<in> set ms \<Longrightarrow> migration_key m = k \<Longrightarrow> List.find (\<lambda>m. migration_key m = k) ms \<noteq> None"
  by (auto simp: find_None_iff)

lemma model_sync_relations:
  "model_sync env table w = Inr w1 \<Longrightarrow> table \<in> set (relations w1) \<and> set (relations w) \<subseteq> set (relations w1)"
  by (auto simp: model_sync_def split: option.splits if_splits)

lemma run_Cons:
  "runPendingStatements env (st # rest) w =
     (case runPendingStatements_iterator env st w of
        (Continue, w') \<Rightarrow> runPendingStatements env rest w'
      | (Abort err, w') \<Rightarrow> w'
      | (Stalled, w') \<Rightarrow> w')"
  by (simp add: runPendingStatements_def split: prod.splits signal.splits)

lemma run_Nil: "runPendingStatements env [] w = w"
  by (simp add: runPendingStatements_def)

lemma run_iterator_failure:
  assumes "query_answer env w (sql_statement st) = Inl error"
  shows "runPendingStatements_iterator env st w =
     (case save_error env
             (w\<lparr>queries := queries w @ [(sql_statement st, Inl error)],
                error_log := error_log w @
                  [[Text ''Migration SQL statement failed with error code '',
                    Num (number error), Text '': '', Err error]]\<rparr>)
             (st\<lparr>status := ''failure'', error_code := number error, error_info := Some error\<rparr>) of
        None \<Rightarrow>
          (Abort error,
           w\<lparr>queries := queries w @ [(sql_statement st, Inl error)],
             error_log := error_log w @
               [[Text ''Migration SQL statement failed with error code '',
                 Num (number error), Text '': '', Err error]],
             MigrationStatements :=
               map (\<lambda>r. if s_id r = s_id st
                         then st\<lparr>status := ''failure'', error_code := number error,
                                 error_info := Some error\<rparr>
                         else r) (MigrationStatements w)\<rparr>)
      | Some e \<Rightarrow>
          (Stalled,
           w\<lparr>queries := queries w @ [(sql_statement st, Inl error)],
             error_log := error_log w @
               [[Text ''Migration SQL statement failed with error code '',
                 Num (number error), Text '': '', Err error]],
             uncaught := uncaught w @ [e]\<rparr>))"
  using assms
  by (simp add: runPendingStatements_iterator_def executeSql_def statement_save_def
      logError_def uncaughtException_def Let_def split: option.splits)

lemma run_iterator_success:
  assumes "query_answer env w (sql_statement st) = Inr rows"
  shows "runPendingStatements_iterator env st w =
     (case save_error env (w\<lparr>queries := queries w @ [(sql_statement st, Inr rows)]\<rparr>)
             (st\<lparr>status := ''success''\<rparr>) of
        None \<Rightarrow>
          (Continue,
           w\<lparr>queries := queries w @ [(sql_statement st, Inr rows)],
             MigrationStatements :=
               map (\<lambda>r. if s_id r = s_id st then st\<lparr>status := ''success''\<rparr> else r)
                 (MigrationStatements w)\<rparr>)
      | Some e \<Rightarrow>
          (Stalled,
           w\<lparr>queries := queries w @ [(sql_statement st, Inr rows)],
             uncaught := uncaught w @ [e]\<rparr>))"
  using assms
  by (simp add: runPendingStatements_iterator_def executeSql_def statement_save_def
      uncaughtException_def Let_def split: option.splits)

lemma length_pending_rows: "length (pending_rows sid mid xs) = length xs"
  by (induction xs arbitrary: sid) simp_all

lemma pending_rows_nth:
  "i < length xs \<Longrightarrow> pending_rows sid mid xs ! i = pending_row (sid + i) mid (xs ! i)"
proof (induction xs arbitrary: sid i)
  case Nil
  then show ?case by simp
next
  case (Cons x xs)
  then show ?case by (cases i) simp_all
qed

lemma pending_rows_ids: "map s_id (pending_rows sid mid xs) = [sid..<sid + length xs]"
proof (induction xs arbitrary: sid)
  case Nil
  then show ?case by simp
next
  case (Cons x xs)
  have "[sid..<sid + length (x # xs)] = sid # [Suc sid..<Suc sid + length xs]"
    by (subst upt_rec) simp
  then show ?case using Cons.IH[of "Suc sid"] by (simp add: pending_row_def)
qed

lemma pending_rows_sql: "map sql_statement (pending_rows sid mid xs) = map normalize_str xs"
  by (induction xs arbitrary: sid) (simp_all add: pending_row_def)

lemma pending_rows_mid: "map migration_id (pending_rows sid mid xs) = replicate (length xs) mid"
  by (induction xs arbitrary: sid) (simp_all add: pending_row_def)

lemma take_pending_rows: "take k (pending_rows sid mid xs) = pending_rows sid mid (take k xs)"
proof (induction xs arbitrary: sid k)
  case Nil
  then show ?case by simp
next
  case (Cons x xs)
  then show ?case by (cases k) simp_all
qed

lemma map_eq_nth:
  "map f xs = map f ys \<Longrightarrow> j < length xs \<Longrightarrow> f (xs ! j) = f (ys ! j)"
  by (metis length_map nth_map)

lemma run_columns:
  assumes agree: "\<forall>r\<in>set (MigrationStatements w). \<forall>st\<in>set sts.
      s_id r = s_id st \<longrightarrow> sql_statement r = sql_statement st \<and> migration_id r = migration_id st"
  shows "map s_id (MigrationStatements (runPendingStatements env sts w)) =
           map s_id (MigrationStatements w) \<and>
         map sql_statement (MigrationStatements (runPendingStatements env sts w)) =
           map sql_statement (MigrationStatements w) \<and>
         map migration_id (MigrationStatements (runPendingStatements env sts w)) =
           map migration_id (MigrationStatements w)"
  unfolding runPendingStatements_def
proof (rule forEachSeries_invariant
    [where P = "\<lambda>v. map s_id (MigrationStatements v) = map s_id (MigrationStatements w) \<and>
       map sql_statement (MigrationStatements v) = map sql_statement (MigrationStatements w) \<and>
       map migration_id (MigrationStatements v) = map migration_id (MigrationStatements w)"])
  fix x v sig v'
  assume x: "x \<in> set sts"
    and P: "map s_id (MigrationStatements v) = map s_id (MigrationStatements w) \<and>
       map sql_statement (MigrationStatements v) = map sql_statement (MigrationStatements w) \<and>
       map migration_id (MigrationStatements v) = map migration_id (MigrationStatements w)"
    and it: "runPendingStatements_iterator env x v = (sig, v')"
  obtain a st' where tab: "MigrationStatements v' = MigrationStatements v \<or>
            MigrationStatements v' =
              map (\<lambda>r. if s_id r = s_id x then st' else r) (MigrationStatements v)"
    and sid: "s_id st' = s_id x" and sql: "sql_statement st' = sql_statement x"
    and mid: "migration_id st' = migration_id x"
    using run_iterator_step[OF it] by blast
  have len: "length (MigrationStatements v) = length (MigrationStatements w)"
    using P by (metis length_map)
  have same: "sql_statement r = sql_statement x \<and> migration_id r = migration_id x"
    if r: "r \<in> set (MigrationStatements v)" and eq: "s_id r = s_id x" for r
  proof -
    obtain j where j: "j < length (MigrationStatements v)" and rj: "r = MigrationStatements v ! j"
      using r by (auto simp: in_set_conv_nth)
    have "s_id (MigrationStatements w ! j) = s_id x"
      using map_eq_nth[of s_id "MigrationStatements v" "MigrationStatements w" j] P j rj eq by simp
    moreover have "MigrationStatements w ! j \<in> set (MigrationStatements w)"
      using j len by simp
    ultimately have "sql_statement (MigrationStatements w ! j) = sql_statement x \<and>
        migration_id (MigrationStatements w ! j) = migration_id x"
      using agree x by blast
    moreover have "sql_statement r = sql_statement (MigrationStatements w ! j)"
      using map_eq_nth[of sql_statement "MigrationStatements v" "MigrationStatements w" j] P j rj
      by simp
    moreover have "migration_id r = migration_id (MigrationStatements w ! j)"
      using map_eq_nth[of migration_id "MigrationStatements v" "MigrationStatements w" j] P j rj
      by simp
    ultimately show ?thesis by simp
  qed
  have "map s_id (MigrationStatements v') = map s_id (MigrationStatements v) \<and>
       map sql_statement (MigrationStatements v') = map sql_statement (MigrationStatements v) \<and>
       map migration_id (MigrationStatements v') = map migration_id (MigrationStatements v)"
    using tab sid sql mid same by (auto simp: map_idI)
  then show "map s_id (MigrationStatements v') = map s_id (MigrationStatements w) \<and>
       map sql_statement (MigrationStatements v') = map sql_statement (MigrationStatements w) \<and>
       map migration_id (MigrationStatements v') = map migration_id (MigrationStatements w)"
    using P by simp
qed simp_all

lemma pending_agree:
  assumes ids: "list_all (\<lambda>r. s_id r < next_statement_id w) (MigrationStatements w)"
  shows "\<forall>r\<in>set (MigrationStatements (with_pending w mid xs)).
           \<forall>st\<in>set (pending_rows (next_statement_id w) mid xs).
             s_id r = s_id st \<longrightarrow>
             sql_statement r = sql_statement st \<and> migration_id r = migration_id st"
proof (intro ballI impI)
  fix r st
  assume r: "r \<in> set (MigrationStatements (with_pending w mid xs))"
    and st: "st \<in> set (pending_rows (next_statement_id w) mid xs)"
    and eq: "s_id r = s_id st"
  obtain j where j: "j < length xs"
    and stj: "st = pending_row (next_statement_id w + j) mid (xs ! j)"
    using st by (auto simp: in_set_conv_nth length_pending_rows pending_rows_nth)
  have sid_st: "s_id st = next_statement_id w + j" using stj by (simp add: pending_row_def)
  from r have "r \<in> set (MigrationStatements w) \<or>
      r \<in> set (pending_rows (next_statement_id w) mid xs)"
    by (simp add: with_pending_frame)
  then show "sql_statement r = sql_statement st \<and> migration_id r = migration_id st"
  proof
    assume "r \<in> set (MigrationStatements w)"
    then have "s_id r < next_statement_id w" using ids by (simp add: list_all_iff)
    then show ?thesis using eq sid_st by simp
  next
    assume "r \<in> set (pending_rows (next_statement_id w) mid xs)"
    then obtain i where i: "i < length xs"
      and ri: "r = pending_row (next_statement_id w + i) mid (xs ! i)"
      by (auto simp: in_set_conv_nth length_pending_rows pending_rows_nth)
    have "i = j" using eq sid_st ri by (simp add: pending_row_def)
    then show ?thesis using ri stj by simp
  qed
qed

lemma batch_result:
  assumes ids: "list_all (\<lambda>r. s_id r < next_statement_id w) (MigrationStatements w)"
  shows "\<exists>n k qs news. k \<le> n \<and> n \<le> length sqls \<and>
     (\<forall>i<n. statement_create_error env (with_pending w (m_id m) (take i sqls)) (m_id m)
              (normalize_str (sqls ! i)) = None) \<and>
     (n < length sqls \<longrightarrow>
        statement_create_error env (with_pending w (m_id m) (take n sqls)) (m_id m)
          (normalize_str (sqls ! n)) \<noteq> None) \<and>
     MigrationStatements (createPendingStatements env m sqls (runPendingStatements env) w) =
       MigrationStatements w @ news \<and>
     length news = n \<and>
     map s_id news = [next_statement_id w..<next_statement_id w + n] \<and>
     map sql_statement news = map normalize_str (take n sqls) \<and>
     map migration_id news = replicate n (m_id m) \<and>
     next_statement_id (createPendingStatements env m sqls (runPendingStatements env) w) =
       next_statement_id w + n \<and>
     queries (createPendingStatements env m sqls (runPendingStatements env) w) = queries w @ qs \<and>
     length qs = k \<and>
     map fst qs = map normalize_str (take k sqls) \<and>
     (\<forall>i. Suc i < k \<longrightarrow> \<not> isl (snd (qs ! i))) \<and>
     (0 < n \<longrightarrow> 0 < k) \<and>
     (\<forall>i<k. \<exists>v. queries v = queries w @ take i qs \<and>
                snd (qs ! i) = query_answer env v (normalize_str (sqls ! i))) \<and>
     (k < n \<longrightarrow>
        isl (snd (last qs)) \<or>
        (\<exists>v e. queries v = queries w @ qs \<and>
               save_error env v
                 (marked_success
                    (pending_row (next_statement_id w + (k - 1)) (m_id m) (sqls ! (k - 1)))) =
               Some e)) \<and>
     (\<forall>j. k \<le> j \<and> j < n \<longrightarrow>
        news ! j = pending_row (next_statement_id w + j) (m_id m) (sqls ! j))"
proof -
  let ?mid = "m_id m"
  let ?next = "next_statement_id w"
  obtain n where n: "n \<le> length sqls"
    and res: "createPendingStatements env m sqls (runPendingStatements env) w =
       runPendingStatements env (pending_rows ?next ?mid (take n sqls))
         (with_pending w ?mid (take n sqls))"
    and acc: "\<forall>i<n. statement_create_error env (with_pending w ?mid (take i sqls)) ?mid
              (normalize_str (sqls ! i)) = None"
    and ref: "n < length sqls \<longrightarrow>
        statement_create_error env (with_pending w ?mid (take n sqls)) ?mid
          (normalize_str (sqls ! n)) \<noteq> None"
    using create_result[of sqls env m "runPendingStatements env" w] by blast
  let ?xs = "take n sqls"
  let ?rows = "pending_rows ?next ?mid ?xs"
  let ?W = "with_pending w ?mid ?xs"
  let ?w' = "runPendingStatements env ?rows ?W"
  let ?old = "MigrationStatements w"
  have lxs: "length ?xs = n" using n by simp
  have lrows: "length ?rows = n" using n by (simp add: length_pending_rows)
  have tabW: "MigrationStatements ?W = ?old @ ?rows" by (simp add: with_pending_frame)
  obtain k qs where k: "k \<le> length ?rows"
    and q: "queries ?w' = queries ?W @ qs" and lq: "length qs = k"
    and fq: "map fst qs = map sql_statement (take k ?rows)"
    and last: "\<forall>i. Suc i < k \<longrightarrow> \<not> isl (snd (qs ! i))"
    and pos: "?rows \<noteq> [] \<longrightarrow> 0 < k"
    and answers: "\<forall>i<k. \<exists>v. queries v = queries ?W @ take i qs \<and>
                snd (qs ! i) = query_answer env v (sql_statement (?rows ! i))"
    and halt: "k < length ?rows \<longrightarrow>
        isl (snd (last qs)) \<or>
        (\<exists>v e. queries v = queries ?W @ qs \<and>
               save_error env v (marked_success (?rows ! (k - 1))) = Some e)"
    and len: "length (MigrationStatements ?w') = length (MigrationStatements ?W)"
    and keep: "\<forall>j<length (MigrationStatements ?W).
        s_id (MigrationStatements ?W ! j) \<notin> s_id ` set (take k ?rows) \<longrightarrow>
        MigrationStatements ?w' ! j = MigrationStatements ?W ! j"
    using run_series[of ?rows env ?W] by blast
  have kn: "k \<le> n" using k lrows by simp
  have cols: "map s_id (MigrationStatements ?w') = map s_id (MigrationStatements ?W) \<and>
         map sql_statement (MigrationStatements ?w') = map sql_statement (MigrationStatements ?W) \<and>
         map migration_id (MigrationStatements ?w') = map migration_id (MigrationStatements ?W)"
    by (rule run_columns[OF pending_agree[OF ids]])
  have executed_ids: "s_id ` set (take k ?rows) = {?next..<?next + k}"
  proof -
    have "s_id ` set (take k ?rows) = set (map s_id (pending_rows ?next ?mid (take k ?xs)))"
      by (simp add: take_pending_rows)
    also have "\<dots> = set [?next..<?next + length (take k ?xs)]"
      by (simp only: pending_rows_ids)
    also have "\<dots> = {?next..<?next + k}" using kn n by simp
    finally show ?thesis .
  qed
  define news where "news = drop (length ?old) (MigrationStatements ?w')"
  have old_kept: "take (length ?old) (MigrationStatements ?w') = ?old"
  proof (rule nth_equalityI)
    show "length (take (length ?old) (MigrationStatements ?w')) = length ?old"
      using len tabW by simp
  next
    fix j assume "j < length (take (length ?old) (MigrationStatements ?w'))"
    then have j: "j < length ?old" by simp
    have Wj: "MigrationStatements ?W ! j = ?old ! j" using j by (simp add: tabW nth_append)
    have "s_id (?old ! j) < ?next" using ids j by (simp add: list_all_length)
    then have "s_id (MigrationStatements ?W ! j) \<notin> s_id ` set (take k ?rows)"
      by (simp add: Wj executed_ids)
    then have "MigrationStatements ?w' ! j = MigrationStatements ?W ! j"
      using keep j tabW by simp
    then show "take (length ?old) (MigrationStatements ?w') ! j = ?old ! j"
      using j Wj by simp
  qed
  have split: "MigrationStatements ?w' = ?old @ news"
    using old_kept append_take_drop_id[of "length ?old" "MigrationStatements ?w'"]
    by (simp add: news_def)
  have lnews: "length news = n"
    using len tabW lrows by (simp add: news_def)
  have c_ids: "map s_id news = [?next..<?next + n]"
  proof -
    have "map s_id (?old @ news) = map s_id (?old @ ?rows)" using cols split tabW by simp
    then have "map s_id news = map s_id ?rows" by simp
    then show ?thesis using n by (simp add: pending_rows_ids)
  qed
  have c_sql: "map sql_statement news = map normalize_str ?xs"
  proof -
    have "map sql_statement (?old @ news) = map sql_statement (?old @ ?rows)"
      using cols split tabW by simp
    then have "map sql_statement news = map sql_statement ?rows" by simp
    then show ?thesis by (simp add: pending_rows_sql)
  qed
  have c_mid: "map migration_id news = replicate n ?mid"
  proof -
    have "map migration_id (?old @ news) = map migration_id (?old @ ?rows)"
      using cols split tabW by simp
    then have "map migration_id news = map migration_id ?rows" by simp
    then show ?thesis using n by (simp add: pending_rows_mid)
  qed
  have c_next: "next_statement_id ?w' = ?next + n"
    using run_frame[of env ?rows ?W] n by (simp add: with_pending_frame)
  have c_q: "queries ?w' = queries w @ qs" using q by (simp add: with_pending_frame)
  have c_fq: "map fst qs = map normalize_str (take k sqls)"
  proof -
    have "map fst qs = map sql_statement (pending_rows ?next ?mid (take k ?xs))"
      using fq by (simp add: take_pending_rows)
    also have "\<dots> = map normalize_str (take k ?xs)" by (simp only: pending_rows_sql)
    also have "take k ?xs = take k sqls" using kn by (simp add: min_absorb1)
    finally show ?thesis .
  qed
  have c_pending: "\<forall>j. k \<le> j \<and> j < n \<longrightarrow> news ! j = pending_row (?next + j) ?mid (sqls ! j)"
  proof (intro allI impI)
    fix j assume j: "k \<le> j \<and> j < n"
    have idx: "length ?old + j < length (MigrationStatements ?W)"
      using j lrows by (simp add: tabW)
    have Wj: "MigrationStatements ?W ! (length ?old + j) = ?rows ! j"
      by (simp add: tabW nth_append)
    have rj: "?rows ! j = pending_row (?next + j) ?mid (sqls ! j)"
      using j n by (simp add: pending_rows_nth)
    have "s_id (?rows ! j) = ?next + j" by (simp add: rj pending_row_def)
    then have "s_id (MigrationStatements ?W ! (length ?old + j)) \<notin> s_id ` set (take k ?rows)"
      using j by (simp add: Wj executed_ids)
    then have "MigrationStatements ?w' ! (length ?old + j) = ?rows ! j"
      using keep idx Wj by simp
    moreover have "news ! j = MigrationStatements ?w' ! (length ?old + j)"
      using split by (simp add: nth_append)
    ultimately show "news ! j = pending_row (?next + j) ?mid (sqls ! j)"
      using rj by simp
  qed
  have row: "?rows ! i = pending_row (?next + i) ?mid (sqls ! i)" if "i < n" for i
    using that n by (simp add: pending_rows_nth)
  have c_pos: "0 < n \<longrightarrow> 0 < k"
  proof
    assume "0 < n"
    then have "?rows \<noteq> []" using lrows by auto
    then show "0 < k" using pos by simp
  qed
  have c_answers: "\<forall>i<k. \<exists>v. queries v = queries w @ take i qs \<and>
                snd (qs ! i) = query_answer env v (normalize_str (sqls ! i))"
  proof (intro allI impI)
    fix i assume i: "i < k"
    then obtain v where "queries v = queries ?W @ take i qs"
      and "snd (qs ! i) = query_answer env v (sql_statement (?rows ! i))"
      using answers by blast
    moreover have "sql_statement (?rows ! i) = normalize_str (sqls ! i)"
      using i kn by (simp add: row pending_row_def)
    ultimately show "\<exists>v. queries v = queries w @ take i qs \<and>
                snd (qs ! i) = query_answer env v (normalize_str (sqls ! i))"
      by (intro exI[of _ v]) (simp add: with_pending_frame)
  qed
  have c_halt: "k < n \<longrightarrow>
        isl (snd (last qs)) \<or>
        (\<exists>v e. queries v = queries w @ qs \<and>
               save_error env v (marked_success (pending_row (?next + (k - 1)) ?mid (sqls ! (k - 1)))) =
               Some e)"
  proof
    assume kln: "k < n"
    then have "0 < k" using c_pos by simp
    then have r: "?rows ! (k - 1) = pending_row (?next + (k - 1)) ?mid (sqls ! (k - 1))"
      using kln by (simp add: row)
    from halt kln lrows consider "isl (snd (last qs))"
      | v e where "queries v = queries ?W @ qs"
          "save_error env v (marked_success (?rows ! (k - 1))) = Some e"
      by auto
    then show "isl (snd (last qs)) \<or>
        (\<exists>v e. queries v = queries w @ qs \<and>
               save_error env v (marked_success (pending_row (?next + (k - 1)) ?mid (sqls ! (k - 1)))) =
               Some e)"
    proof cases
      case 1
      then show ?thesis by simp
    next
      case 2
      have "queries v = queries w @ qs" using 2(1) by (simp add: with_pending_frame)
      then show ?thesis using 2(2) r by auto
    qed
  qed
  show ?thesis
    unfolding res
    apply (rule exI[of _ n], rule exI[of _ k], rule exI[of _ qs], rule exI[of _ news])
    using kn n acc ref split lnews c_ids c_sql c_mid c_next c_q lq c_fq last c_pos c_answers
      c_halt c_pending
    by simp
qed

lemma runOnce_cases:
  "runOnce env key a w = with_copy w a \<or>
   (\<exists>e. find_error env (with_copy w a) (normalize_str key) = Some e \<and>
        runOnce env key a w = uncaughtException e (with_copy w a)) \<or>
   (Migration_find env (with_copy w a) (normalize_str key) = Inr None \<and>
    (\<exists>e. migration_create_error env (with_copy w a) (normalize_str key) = Some e \<and>
       runOnce env key a w =
         logError [Text ''Failed to create migration'', Key key, Sqls (sql_list w a)]
           (with_copy w a))) \<or>
   (Migration_find env (with_copy w a) (normalize_str key) = Inr None \<and>
    migration_create_error env (with_copy w a) (normalize_str key) = None \<and>
    runOnce env key a w =
      createPendingStatements env
        \<lparr>m_id = next_migration_id w, migration_key = normalize_str key\<rparr>
        (sql_list w a) (runPendingStatements env) (with_migration w key a))"
proof (cases "Migration_find env (with_copy w a) (normalize_str key)")
  case (Inl e)
  then have "find_error env (with_copy w a) (normalize_str key) = Some e"
    by (simp add: Migration_find_def split: option.splits)
  then show ?thesis using Inl by (simp add: runOnce_unfold runIfNotExists_def)
next
  case (Inr found)
  show ?thesis
  proof (cases found)
    case (Some row)
    then show ?thesis using Inr by (simp add: runOnce_unfold runIfNotExists_def)
  next
    case None
    show ?thesis
    proof (cases "migration_create_error env (with_copy w a) (normalize_str key)")
      case (Some e)
      then show ?thesis
        using Inr None
        by (simp add: runOnce_unfold runIfNotExists_def runOnce_create_def
            Migration_create_def with_copy_frame)
    next
      case none: None
      have rd: "read_array (with_migration w key a) (length (arrays w)) = sql_list w a"
        by (simp add: read_array_def with_copy_def with_migration_def)
      show ?thesis
        using Inr None none rd
        by (simp add: runOnce_unfold runIfNotExists_def runOnce_create_def
            Migration_create_def with_copy_frame with_migration_def Let_def)
    qed
  qed
qed

section \<open>The identifier invariant\<close>

text \<open>
  The hypothesis \<open>ids_below\<close> of the theorems below holds in a fresh database and
  is kept by every call of \<open>runOnce\<close>, whatever the database answers.
\<close>

lemma ids_below_fresh: "ids_below fresh"
  by (simp add: ids_below_def fresh_def)

lemma with_migration_frame:
  "Migrations (with_migration w key a) =
     Migrations w @ [\<lparr>m_id = next_migration_id w, migration_key = normalize_str key\<rparr>]"
  "next_migration_id (with_migration w key a) = Suc (next_migration_id w)"
  "MigrationStatements (with_migration w key a) = MigrationStatements w"
  "next_statement_id (with_migration w key a) = next_statement_id w"
  "queries (with_migration w key a) = queries w"
  "error_log (with_migration w key a) = error_log w"
  "uncaught (with_migration w key a) = uncaught w"
  "relations (with_migration w key a) = relations w"
  "arrays (with_migration w key a) = arrays w @ [sql_list w a]"
  by (simp_all add: with_migration_def with_copy_def)

lemma ids_below_runOnce:
  assumes ids: "ids_below w"
  shows "ids_below (runOnce env key a w)"
proof -
  let ?m = "\<lparr>m_id = next_migration_id w, migration_key = normalize_str key\<rparr>"
  let ?W = "with_migration w key a"
  let ?sqls = "sql_list w a"
  consider
    (idle) "runOnce env key a w = with_copy w a"
  | (thrown) e where "runOnce env key a w = uncaughtException e (with_copy w a)"
  | (refused) "runOnce env key a w =
         logError [Text ''Failed to create migration'', Key key, Sqls ?sqls] (with_copy w a)"
  | (batch) "runOnce env key a w =
      createPendingStatements env ?m ?sqls (runPendingStatements env) ?W"
    using runOnce_cases[of env key a w] by blast
  then show ?thesis
  proof cases
    case idle
    then show ?thesis using ids by (simp add: ids_below_def with_copy_frame)
  next
    case thrown
    then show ?thesis
      using ids by (simp add: ids_below_def uncaughtException_def with_copy_frame)
  next
    case refused
    then show ?thesis using ids by (simp add: ids_below_def logError_def with_copy_frame)
  next
    case batch
    let ?w' = "createPendingStatements env ?m ?sqls (runPendingStatements env) ?W"
    have ids1: "list_all (\<lambda>r. s_id r < next_statement_id ?W) (MigrationStatements ?W)"
      using ids by (simp add: ids_below_def with_migration_frame list_all_iff)
    obtain n news where tab: "MigrationStatements ?w' = MigrationStatements ?W @ news"
      and lnews: "length news = n"
      and sids: "map s_id news = [next_statement_id ?W..<next_statement_id ?W + n]"
      and mids: "map migration_id news = replicate n (m_id ?m)"
      and nxt: "next_statement_id ?w' = next_statement_id ?W + n"
      using batch_result[OF ids1, of ?sqls env ?m] by blast
    have fr: "Migrations ?w' = Migrations ?W" "next_migration_id ?w' = next_migration_id ?W"
      using create_run_frame[of env ?m ?sqls ?W] by simp_all
    have new_rows: "s_id r < next_statement_id w + n \<and> migration_id r = next_migration_id w"
      if "r \<in> set news" for r
    proof -
      have "s_id r \<in> set (map s_id news)" "migration_id r \<in> set (map migration_id news)"
        using that by simp_all
      then show ?thesis by (simp add: sids mids with_migration_frame)
    qed
    have "list_all (\<lambda>m. m_id m < next_migration_id ?w') (Migrations ?w')"
      using ids by (auto simp: fr ids_below_def with_migration_frame list_all_iff)
    moreover have "list_all (\<lambda>r. s_id r < next_statement_id ?w' \<and>
         migration_id r < next_migration_id ?w') (MigrationStatements ?w')"
      using ids new_rows
      by (auto simp: tab nxt fr ids_below_def with_migration_frame list_all_iff)
    ultimately show ?thesis by (simp add: batch ids_below_def)
  qed
qed

lemma normalize_str_None_iff: "normalize_str x = None \<longleftrightarrow> isEmpty x"
  by (cases x) (auto simp: normalize_str_def isEmpty_def)

lemma pending_rows_not_empty_text:
  "r \<in> set (pending_rows sid mid xs) \<Longrightarrow> sql_statement r \<noteq> Some []"
proof -
  assume "r \<in> set (pending_rows sid mid xs)"
  then have "sql_statement r \<in> set (map sql_statement (pending_rows sid mid xs))" by simp
  then have "sql_statement r \<in> set (map normalize_str xs)" by (simp only: pending_rows_sql)
  then obtain x where "sql_statement r = normalize_str x" by auto
  then show ?thesis using normalize_str_not_empty[of x] by simp
qed

lemma runOnce_batch:
  assumes lookup: "Migration_find env (with_copy w a) (normalize_str key) = Inr None"
    and accepted: "migration_create_error env (with_copy w a) (normalize_str key) = None"
  shows "runOnce env key a w =
      createPendingStatements env
        \<lparr>m_id = next_migration_id w, migration_key = normalize_str key\<rparr>
        (sql_list w a) (runPendingStatements env) (with_migration w key a)"
proof -
  have rd: "read_array (with_migration w key a) (length (arrays w)) = sql_list w a"
    by (simp add: read_array_def with_copy_def with_migration_def)
  show ?thesis
    using lookup accepted rd
    by (simp add: runOnce_unfold runIfNotExists_def runOnce_create_def
        Migration_create_def with_copy_frame with_migration_def Let_def)
qed

lemma runOnce_seen:
  assumes "m \<in> set (Migrations w)" and "migration_key m = normalize_str key"
  shows "runOnce env key a w =
     (case find_error env (with_copy w a) (normalize_str key) of
        None \<Rightarrow> with_copy w a
      | Some e \<Rightarrow> uncaughtException e (with_copy w a))"
proof (cases "find_error env (with_copy w a) (normalize_str key)")
  case (Some e)
  then show ?thesis
    by (simp add: runOnce_unfold runIfNotExists_def Migration_find_def)
next
  case None
  have "List.find (\<lambda>m. migration_key m = normalize_str key) (Migrations w) \<noteq> None"
    using assms find_existing by blast
  then show ?thesis
    using None
    by (auto simp: runOnce_unfold runIfNotExists_def Migration_find_def with_copy_frame)
qed

lemma batch_ordering:
  assumes lookup: "Migration_find env (with_copy w sqlStatements) (normalize_str key) = Inr None"
    and accepted: "migration_create_error env (with_copy w sqlStatements) (normalize_str key) = None"
    and ids: "ids_below w"
  shows "\<exists>n k qs news. k \<le> n \<and> n \<le> length (sql_list w sqlStatements) \<and>
     (\<forall>i<n. statement_create_error env
              (with_pending (with_migration w key sqlStatements) (next_migration_id w)
                 (take i (sql_list w sqlStatements)))
              (next_migration_id w) (normalize_str (sql_list w sqlStatements ! i)) = None) \<and>
     (n < length (sql_list w sqlStatements) \<longrightarrow>
        statement_create_error env
          (with_pending (with_migration w key sqlStatements) (next_migration_id w)
             (take n (sql_list w sqlStatements)))
          (next_migration_id w) (normalize_str (sql_list w sqlStatements ! n)) \<noteq> None) \<and>
     MigrationStatements (runOnce env key sqlStatements w) = MigrationStatements w @ news \<and>
     length news = n \<and>
     map s_id news = [next_statement_id w..<next_statement_id w + n] \<and>
     map sql_statement news = map normalize_str (take n (sql_list w sqlStatements)) \<and>
     map migration_id news = replicate n (next_migration_id w) \<and>
     queries (runOnce env key sqlStatements w) = queries w @ qs \<and>
     length qs = k \<and>
     map fst qs = map normalize_str (take k (sql_list w sqlStatements)) \<and>
     (0 < n \<longrightarrow> 0 < k) \<and>
     (\<forall>i<k. \<exists>v. queries v = queries w @ take i qs \<and>
                snd (qs ! i) =
                  query_answer env v (normalize_str (sql_list w sqlStatements ! i))) \<and>
     (\<forall>i<k. isl (snd (qs ! i)) \<longrightarrow> k = Suc i) \<and>
     (k < n \<longrightarrow>
        isl (snd (last qs)) \<or>
        (\<exists>v e. queries v = queries w @ qs \<and>
               save_error env v
                 (marked_success
                    (pending_row (next_statement_id w + (k - 1)) (next_migration_id w)
                       (sql_list w sqlStatements ! (k - 1)))) = Some e)) \<and>
     (\<forall>j. k \<le> j \<and> j < n \<longrightarrow>
        news ! j = pending_row (next_statement_id w + j) (next_migration_id w)
                     (sql_list w sqlStatements ! j) \<and>
        status (news ! j) = ''pending'')"
proof -
  let ?m = "\<lparr>m_id = next_migration_id w, migration_key = normalize_str key\<rparr>"
  let ?W = "with_migration w key sqlStatements"
  let ?sqls = "sql_list w sqlStatements"
  have batch: "runOnce env key sqlStatements w =
      createPendingStatements env ?m ?sqls (runPendingStatements env) ?W"
    by (rule runOnce_batch[OF lookup accepted])
  have ids1: "list_all (\<lambda>r. s_id r < next_statement_id ?W) (MigrationStatements ?W)"
    using ids by (simp add: ids_below_def with_migration_frame list_all_iff)
  obtain n k qs news where kn: "k \<le> n" and n: "n \<le> length ?sqls"
    and acc: "\<forall>i<n. statement_create_error env (with_pending ?W (m_id ?m) (take i ?sqls)) (m_id ?m)
              (normalize_str (?sqls ! i)) = None"
    and ref: "n < length ?sqls \<longrightarrow>
        statement_create_error env (with_pending ?W (m_id ?m) (take n ?sqls)) (m_id ?m)
          (normalize_str (?sqls ! n)) \<noteq> None"
    and tab: "MigrationStatements (createPendingStatements env ?m ?sqls (runPendingStatements env) ?W) =
         MigrationStatements ?W @ news"
    and lnews: "length news = n"
    and sids: "map s_id news = [next_statement_id ?W..<next_statement_id ?W + n]"
    and sqls: "map sql_statement news = map normalize_str (take n ?sqls)"
    and mids: "map migration_id news = replicate n (m_id ?m)"
    and q: "queries (createPendingStatements env ?m ?sqls (runPendingStatements env) ?W) =
         queries ?W @ qs"
    and lq: "length qs = k"
    and fq: "map fst qs = map normalize_str (take k ?sqls)"
    and last: "\<forall>i. Suc i < k \<longrightarrow> \<not> isl (snd (qs ! i))"
    and pos: "0 < n \<longrightarrow> 0 < k"
    and answers: "\<forall>i<k. \<exists>v. queries v = queries ?W @ take i qs \<and>
                snd (qs ! i) = query_answer env v (normalize_str (?sqls ! i))"
    and halt: "k < n \<longrightarrow>
        isl (snd (last qs)) \<or>
        (\<exists>v e. queries v = queries ?W @ qs \<and>
               save_error env v
                 (marked_success
                    (pending_row (next_statement_id ?W + (k - 1)) (m_id ?m) (?sqls ! (k - 1)))) =
               Some e)"
    and pend: "\<forall>j. k \<le> j \<and> j < n \<longrightarrow>
        news ! j = pending_row (next_statement_id ?W + j) (m_id ?m) (?sqls ! j)"
    using batch_result[OF ids1, of ?sqls env ?m] by blast
  have last': "\<forall>i<k. isl (snd (qs ! i)) \<longrightarrow> k = Suc i"
  proof (intro allI impI)
    fix i assume "i < k" and "isl (snd (qs ! i))"
    then show "k = Suc i" using last[rule_format, of i] by (cases "Suc i < k") auto
  qed
  have pend': "\<forall>j. k \<le> j \<and> j < n \<longrightarrow>
        news ! j = pending_row (next_statement_id w + j) (next_migration_id w) (?sqls ! j) \<and>
        status (news ! j) = ''pending''"
    using pend by (simp add: with_migration_frame pending_row_def)
  have acc': "\<forall>i<n. statement_create_error env
              (with_pending ?W (next_migration_id w) (take i ?sqls))
              (next_migration_id w) (normalize_str (?sqls ! i)) = None"
    using acc by simp
  have ref': "n < length ?sqls \<longrightarrow>
        statement_create_error env (with_pending ?W (next_migration_id w) (take n ?sqls))
          (next_migration_id w) (normalize_str (?sqls ! n)) \<noteq> None"
    using ref by simp
  have tab': "MigrationStatements (runOnce env key sqlStatements w) = MigrationStatements w @ news"
    using tab by (simp add: batch with_migration_frame)
  have sids': "map s_id news = [next_statement_id w..<next_statement_id w + n]"
    using sids by (simp add: with_migration_frame)
  have mids': "map migration_id news = replicate n (next_migration_id w)"
    using mids by simp
  have q': "queries (runOnce env key sqlStatements w) = queries w @ qs"
    using q by (simp add: batch with_migration_frame)
  have answers': "\<forall>i<k. \<exists>v. queries v = queries w @ take i qs \<and>
                snd (qs ! i) = query_answer env v (normalize_str (?sqls ! i))"
    using answers by (simp add: with_migration_frame)
  have halt': "k < n \<longrightarrow>
        isl (snd (last qs)) \<or>
        (\<exists>v e. queries v = queries w @ qs \<and>
               save_error env v
                 (marked_success
                    (pending_row (next_statement_id w + (k - 1)) (next_migration_id w)
                       (?sqls ! (k - 1)))) = Some e)"
    using halt by (simp add: with_migration_frame)
  show ?thesis
    apply (rule exI[of _ n], rule exI[of _ k], rule exI[of _ qs], rule exI[of _ news])
    using kn n acc' ref' tab' lnews sids' sqls mids' q' lq fq pos answers' last' halt' pend'
    by blast
qed

section \<open>Evaluation on the example inputs\<close>

text \<open>
  The defining equations handed to the simplifier to run the model on a concrete input,
  and three runs used further down.
\<close>

lemmas engine_defs =
  runOnce_def slice_def new_array_def read_array_def runIfNotExists_def Migration_find_def
  runOnce_create_def Migration_create_def createPendingStatements_def
  createPendingStatements_iterator_def MigrationStatement_create_def
  runPendingStatements_def runPendingStatements_iterator_def executeSql_def
  statement_save_def logError_def uncaughtException_def normalize_str_def isEmpty_def
  Let_def bootstrap_def bootstrap_constraint_step_def model_sync_def

lemmas example_defs =
  two_stmts_def first_done_def pending_row_def mysql_def permissive_def read_only_def
  fresh_def duplicate_column_error_def connection_error_def not_null_error_def
  duplicate_entry_error_def

lemma runOnce_duplicate_column:
  "runOnce mysql (Some ''two_stmts'') (Arr 0) duplicate_column =
     \<lparr>relations = [], Migrations = [\<lparr>m_id = 1, migration_key = Some ''two_stmts''\<rparr>],
      next_migration_id = 2,
      MigrationStatements =
        [\<lparr>s_id = 1, migration_id = 1, sql_statement = Some ''SQL1'', status = ''success'',
          error_code = None, error_info = None\<rparr>,
         \<lparr>s_id = 2, migration_id = 1, sql_statement = Some ''SQL1'', status = ''failure'',
          error_code = Some 1060, error_info = Some duplicate_column_error\<rparr>,
         \<lparr>s_id = 3, migration_id = 1, sql_statement = Some ''SQL2'', status = ''pending'',
          error_code = None, error_info = None\<rparr>],
      next_statement_id = 4,
      queries = [(Some ''SQL1'', Inr None), (Some ''SQL1'', Inl duplicate_column_error)],
      error_log =
        [[Text ''Migration SQL statement failed with error code '', Num (Some 1060),
          Text '': '', Err duplicate_column_error]],
      uncaught = [],
      arrays = [[Some ''SQL1'', Some ''SQL1'', Some ''SQL2''],
                [Some ''SQL1'', Some ''SQL1'', Some ''SQL2'']]\<rparr>"
  by (simp add: engine_defs mysql_def duplicate_column_def fresh_def duplicate_column_error_def)

lemma createPendingStatements_empty_statement:
  "createPendingStatements mysql \<lparr>m_id = 1, migration_key = Some ''m1''\<rparr>
     [Some ''SQL1'', Some '''', Some ''SQL2''] (\<lambda>statements v. v) fresh =
   fresh\<lparr>MigrationStatements :=
           [\<lparr>s_id = 1, migration_id = 1, sql_statement = Some ''SQL1'', status = ''pending'',
             error_code = None, error_info = None\<rparr>],
         next_statement_id := 2\<rparr>"
  by (simp add: engine_defs mysql_def fresh_def)

lemma runOnce_add_col:
  "runOnce mysql (Some ''add_col'') (Str (Some ''SQL1'')) fresh =
     \<lparr>relations = [], Migrations = [\<lparr>m_id = 1, migration_key = Some ''add_col''\<rparr>],
      next_migration_id = 2,
      MigrationStatements =
        [\<lparr>s_id = 1, migration_id = 1, sql_statement = Some ''SQL1'', status = ''success'',
          error_code = None, error_info = None\<rparr>],
      next_statement_id = 2, queries = [(Some ''SQL1'', Inr None)], error_log = [],
      uncaught = [], arrays = [[Some ''SQL1'']]\<rparr>"
  by (simp add: engine_defs mysql_def fresh_def)

section \<open>A creation failure in the middle of a batch\<close>

text \<open>
  Claim C1. The claim says that after a failed creation no statement of the batch
  is executed. The final callback of the series in \<open>createPendingStatements\<close> takes
  no error parameter and calls \<open>callback(statements)\<close> also when the series was
  aborted (lemma \<open>create_result\<close>: the callback always runs, on the rows created so
  far). For the texts \<open>SQL1\<close>, the empty string, \<open>SQL2\<close> on a database that enforces
  the schema: the row of \<open>SQL1\<close> is inserted, the insertion of the empty text is
  refused, no row is inserted for \<open>SQL2\<close>, and \<open>SQL1\<close> is then executed and marked
  \<open>success\<close>.
\<close>

theorem partial_batch_is_executed:
  "MigrationStatements (runOnce mysql (Some ''m1'') (Arr 0) empty_statement) =
     [\<lparr>s_id = 1, migration_id = 1, sql_statement = Some ''SQL1'', status = ''success'',
       error_code = None, error_info = None\<rparr>] \<and>
   queries (runOnce mysql (Some ''m1'') (Arr 0) empty_statement) = [(Some ''SQL1'', Inr None)] \<and>
   error_log (runOnce mysql (Some ''m1'') (Arr 0) empty_statement) = []"
  by (simp add: engine_defs mysql_def empty_statement_def fresh_def)

section \<open>Calling runOnce twice\<close>

text \<open>
  Claim C2 as stated quantifies over every key. With the empty string as key, on a
  database that enforces the declared schema, both calls have their Migration insert
  refused: after two calls there is no Migration row at all, not exactly one.
\<close>

theorem run_once_twice_empty_key:
  "Migrations (runOnce mysql (Some '''') (Str (Some ''SQL1''))
                 (runOnce mysql (Some '''') (Str (Some ''SQL1'')) fresh)) = []"
  by (simp add: engine_defs mysql_def fresh_def)

text \<open>
  Claim C2, as amended. Take a first call of \<open>runOnce\<close> whose lookup finds no row
  and whose Migration insert the database accepts (under the declared schema this
  requires a non-empty key). Then any later call with the same key, whatever its
  statements and whatever the database answers, inserts no row, sends no SQL and
  logs nothing: when its lookup is answered, it changes nothing but the array store
  (its own copy of the argument); when its lookup fails, the error is thrown as well
  (claim C9). After both calls there is exactly one Migration row with the normalised key,
  and the Statement rows that refer to it are exactly the rows the first call
  inserted, one batch, in the order of the first call's argument.
\<close>

theorem run_once_idempotent:
  assumes lookup: "Migration_find env (with_copy w sqlStatements) (normalize_str key) = Inr None"
    and accepted: "migration_create_error env (with_copy w sqlStatements) (normalize_str key) = None"
    and ids: "ids_below w"
  shows "let w1 = runOnce env key sqlStatements w;
             w2 = runOnce env' key sqlStatements' w1
         in filter (\<lambda>m. migration_key m = normalize_str key) (Migrations w2) =
              [\<lparr>m_id = next_migration_id w, migration_key = normalize_str key\<rparr>] \<and>
            w2 =
              (case find_error env' (with_copy w1 sqlStatements') (normalize_str key) of
                 None \<Rightarrow> with_copy w1 sqlStatements'
               | Some e \<Rightarrow> uncaughtException e (with_copy w1 sqlStatements')) \<and>
            Migrations w2 = Migrations w1 \<and>
            MigrationStatements w2 = MigrationStatements w1 \<and>
            next_migration_id w2 = next_migration_id w1 \<and>
            next_statement_id w2 = next_statement_id w1 \<and>
            queries w2 = queries w1 \<and>
            error_log w2 = error_log w1 \<and>
            (\<exists>n\<le>length (sql_list w sqlStatements).
               filter (\<lambda>r. migration_id r = next_migration_id w) (MigrationStatements w2) =
                 drop (length (MigrationStatements w)) (MigrationStatements w1) \<and>
               map sql_statement (drop (length (MigrationStatements w)) (MigrationStatements w1)) =
                 map normalize_str (take n (sql_list w sqlStatements)))"
proof -
  let ?m = "\<lparr>m_id = next_migration_id w, migration_key = normalize_str key\<rparr>"
  let ?W = "with_migration w key sqlStatements"
  let ?sqls = "sql_list w sqlStatements"
  let ?w1 = "runOnce env key sqlStatements w"
  let ?w2 = "runOnce env' key sqlStatements' ?w1"
  have w1: "?w1 = createPendingStatements env ?m ?sqls (runPendingStatements env) ?W"
    by (rule runOnce_batch[OF lookup accepted])
  have migs1: "Migrations ?w1 = Migrations w @ [?m]"
    using create_run_frame[of env ?m ?sqls ?W] by (simp add: w1 with_migration_frame)
  have w2: "?w2 =
      (case find_error env' (with_copy ?w1 sqlStatements') (normalize_str key) of
         None \<Rightarrow> with_copy ?w1 sqlStatements'
       | Some e \<Rightarrow> uncaughtException e (with_copy ?w1 sqlStatements'))"
    by (rule runOnce_seen[of ?m]) (simp_all add: migs1)
  have same: "Migrations ?w2 = Migrations ?w1" "MigrationStatements ?w2 = MigrationStatements ?w1"
    "next_migration_id ?w2 = next_migration_id ?w1" "next_statement_id ?w2 = next_statement_id ?w1"
    "queries ?w2 = queries ?w1" "error_log ?w2 = error_log ?w1"
    by (simp_all add: w2 with_copy_frame uncaughtException_def split: option.splits)
  have unseen: "List.find (\<lambda>m. migration_key m = normalize_str key) (Migrations w) = None"
    using lookup
    by (simp add: Migration_find_def with_copy_frame split: option.splits)
  have one: "filter (\<lambda>m. migration_key m = normalize_str key) (Migrations ?w2) = [?m]"
  proof -
    have "filter (\<lambda>m. migration_key m = normalize_str key) (Migrations w) = []"
      using unseen by (simp add: find_None_iff filter_empty_conv)
    then show ?thesis by (simp add: same migs1)
  qed
  have ids1: "list_all (\<lambda>r. s_id r < next_statement_id ?W) (MigrationStatements ?W)"
    using ids by (simp add: ids_below_def with_migration_frame list_all_iff)
  obtain n news where n: "n \<le> length ?sqls"
    and tab: "MigrationStatements (createPendingStatements env ?m ?sqls (runPendingStatements env) ?W) =
         MigrationStatements ?W @ news"
    and lnews: "length news = n"
    and sqls: "map sql_statement news = map normalize_str (take n ?sqls)"
    and mids: "map migration_id news = replicate n (m_id ?m)"
    using batch_result[OF ids1, of ?sqls env ?m] by blast
  have tab1: "MigrationStatements ?w1 = MigrationStatements w @ news"
    using tab by (simp add: w1 with_migration_frame)
  have old: "filter (\<lambda>r. migration_id r = next_migration_id w) (MigrationStatements w) = []"
    using ids by (auto simp: ids_below_def list_all_iff filter_empty_conv)
  have new: "filter (\<lambda>r. migration_id r = next_migration_id w) news = news"
  proof -
    have "\<forall>r\<in>set news. migration_id r = next_migration_id w"
    proof
      fix r assume "r \<in> set news"
      then have "migration_id r \<in> set (map migration_id news)" by simp
      then show "migration_id r = next_migration_id w" by (simp add: mids)
    qed
    then show ?thesis by (simp add: filter_id_conv)
  qed
  have batch: "\<exists>n\<le>length ?sqls.
               filter (\<lambda>r. migration_id r = next_migration_id w) (MigrationStatements ?w2) =
                 drop (length (MigrationStatements w)) (MigrationStatements ?w1) \<and>
               map sql_statement (drop (length (MigrationStatements w)) (MigrationStatements ?w1)) =
                 map normalize_str (take n ?sqls)"
    apply (rule exI[of _ n])
    using n sqls old new by (simp add: same tab1)
  show ?thesis
    unfolding Let_def
    using one w2 batch same by blast
qed

theorem run_once_idempotent_witness:
  "Migration_find mysql (with_copy fresh (Str (Some ''SQL1''))) (normalize_str (Some ''add_col'')) =
     Inr None \<and>
   migration_create_error mysql (with_copy fresh (Str (Some ''SQL1'')))
     (normalize_str (Some ''add_col'')) = None \<and>
   ids_below fresh \<and>
   Migrations (runOnce mysql (Some ''add_col'') (Str (Some ''SQL1''))
                 (runOnce mysql (Some ''add_col'') (Str (Some ''SQL1'')) fresh)) =
     [\<lparr>m_id = 1, migration_key = Some ''add_col''\<rparr>] \<and>
   MigrationStatements (runOnce mysql (Some ''add_col'') (Str (Some ''SQL1''))
                 (runOnce mysql (Some ''add_col'') (Str (Some ''SQL1'')) fresh)) =
     [\<lparr>s_id = 1, migration_id = 1, sql_statement = Some ''SQL1'', status = ''success'',
       error_code = None, error_info = None\<rparr>] \<and>
   queries (runOnce mysql (Some ''add_col'') (Str (Some ''SQL1''))
                 (runOnce mysql (Some ''add_col'') (Str (Some ''SQL1'')) fresh)) =
     [(Some ''SQL1'', Inr None)] \<and>
   error_log (runOnce mysql (Some ''add_col'') (Str (Some ''SQL1''))
                 (runOnce mysql (Some ''add_col'') (Str (Some ''SQL1'')) fresh)) = []"
proof -
  have h1: "Migration_find mysql (with_copy fresh (Str (Some ''SQL1'')))
      (normalize_str (Some ''add_col'')) = Inr None"
    by (simp add: Migration_find_def mysql_def with_copy_def fresh_def)
  have h2: "migration_create_error mysql (with_copy fresh (Str (Some ''SQL1'')))
     (normalize_str (Some ''add_col'')) = None"
    by (simp add: mysql_def with_copy_def fresh_def normalize_str_def isEmpty_def)
  have h3: "ids_below fresh" by (simp add: ids_below_def fresh_def)
  note t = run_once_idempotent[OF h1 h2 h3, of mysql "Str (Some ''SQL1'')", unfolded Let_def]
  note same = t[THEN conjunct2, THEN conjunct2]
  have c1: "Migrations (runOnce mysql (Some ''add_col'') (Str (Some ''SQL1''))
                 (runOnce mysql (Some ''add_col'') (Str (Some ''SQL1'')) fresh)) =
     [\<lparr>m_id = 1, migration_key = Some ''add_col''\<rparr>]"
    using same by (simp add: runOnce_add_col)
  have c2: "MigrationStatements (runOnce mysql (Some ''add_col'') (Str (Some ''SQL1''))
                 (runOnce mysql (Some ''add_col'') (Str (Some ''SQL1'')) fresh)) =
     [\<lparr>s_id = 1, migration_id = 1, sql_statement = Some ''SQL1'', status = ''success'',
       error_code = None, error_info = None\<rparr>]"
    using same by (simp add: runOnce_add_col)
  have c3: "queries (runOnce mysql (Some ''add_col'') (Str (Some ''SQL1''))
                 (runOnce mysql (Some ''add_col'') (Str (Some ''SQL1'')) fresh)) =
     [(Some ''SQL1'', Inr None)]"
    using same by (simp add: runOnce_add_col)
  have c4: "error_log (runOnce mysql (Some ''add_col'') (Str (Some ''SQL1''))
                 (runOnce mysql (Some ''add_col'') (Str (Some ''SQL1'')) fresh)) = []"
    using same by (simp add: runOnce_add_col)
  show ?thesis using h1 h2 h3 c1 c2 c3 c4 by blast
qed

section \<open>Order of creation and execution\<close>

text \<open>
  Claim C3. A call of \<open>runOnce\<close> adds Statement rows and sends SQL exactly when
  its lookup finds no row and its Migration insert is accepted; in every other case
  the Statement table and the SQL sent are unchanged. When the batch starts, with
  \<open>sqls\<close> the SQL texts of the argument:
  \<^item> creation: the Statement rows added are the rows of the first \<open>n\<close> texts, in the
    order of the argument, with ascending identifiers, all referring to the new
    Migration row. Every one of these inserts was accepted, and creation stops before
    the end of the list only at an insert that the database refuses;
  \<^item> execution: the SQL sent is that of the first \<open>k\<close> of these rows, in the same
    order, each answer being the answer of the database to that text after the
    earlier ones. When there is a row, the first one is executed. A query that failed
    is the last one sent: when statement \<open>i\<close> fails, \<open>k = i + 1\<close>. Execution stops
    before the last row only after a failed query or a refused save;
  \<^item> every row from position \<open>k\<close> on was never executed and is exactly the row that
    was inserted, with status \<open>pending\<close>.
  The series of the async library runs its iterator on one element at a time; in this
  model that is how \<open>forEachSeries\<close> is defined.
\<close>

theorem statement_ordering:
  assumes ids: "ids_below w"
  shows "(Migration_find env (with_copy w sqlStatements) (normalize_str key) = Inr None \<and>
          migration_create_error env (with_copy w sqlStatements) (normalize_str key) = None \<longrightarrow>
     (\<exists>n k qs news. k \<le> n \<and> n \<le> length (sql_list w sqlStatements) \<and>
        (\<forall>i<n. statement_create_error env
                 (with_pending (with_migration w key sqlStatements) (next_migration_id w)
                    (take i (sql_list w sqlStatements)))
                 (next_migration_id w) (normalize_str (sql_list w sqlStatements ! i)) = None) \<and>
        (n < length (sql_list w sqlStatements) \<longrightarrow>
           statement_create_error env
             (with_pending (with_migration w key sqlStatements) (next_migration_id w)
                (take n (sql_list w sqlStatements)))
             (next_migration_id w) (normalize_str (sql_list w sqlStatements ! n)) \<noteq> None) \<and>
        MigrationStatements (runOnce env key sqlStatements w) = MigrationStatements w @ news \<and>
        length news = n \<and>
        map s_id news = [next_statement_id w..<next_statement_id w + n] \<and>
        map sql_statement news = map normalize_str (take n (sql_list w sqlStatements)) \<and>
        map migration_id news = replicate n (next_migration_id w) \<and>
        queries (runOnce env key sqlStatements w) = queries w @ qs \<and>
        length qs = k \<and>
        map fst qs = map normalize_str (take k (sql_list w sqlStatements)) \<and>
        (0 < n \<longrightarrow> 0 < k) \<and>
        (\<forall>i<k. \<exists>v. queries v = queries w @ take i qs \<and>
                   snd (qs ! i) =
                     query_answer env v (normalize_str (sql_list w sqlStatements ! i))) \<and>
        (\<forall>i<k. isl (snd (qs ! i)) \<longrightarrow> k = Suc i) \<and>
        (k < n \<longrightarrow>
           isl (snd (last qs)) \<or>
           (\<exists>v e. queries v = queries w @ qs \<and>
                  save_error env v
                    (marked_success
                       (pending_row (next_statement_id w + (k - 1)) (next_migration_id w)
                          (sql_list w sqlStatements ! (k - 1)))) = Some e)) \<and>
        (\<forall>j. k \<le> j \<and> j < n \<longrightarrow>
           news ! j = pending_row (next_statement_id w + j) (next_migration_id w)
                        (sql_list w sqlStatements ! j) \<and>
           status (news ! j) = ''pending''))) \<and>
    (\<not> (Migration_find env (with_copy w sqlStatements) (normalize_str key) = Inr None \<and>
         migration_create_error env (with_copy w sqlStatements) (normalize_str key) = None) \<longrightarrow>
       MigrationStatements (runOnce env key sqlStatements w) = MigrationStatements w \<and>
       queries (runOnce env key sqlStatements w) = queries w)"
proof (intro conjI impI)
  assume "Migration_find env (with_copy w sqlStatements) (normalize_str key) = Inr None \<and>
          migration_create_error env (with_copy w sqlStatements) (normalize_str key) = None"
  then show "\<exists>n k qs news. k \<le> n \<and> n \<le> length (sql_list w sqlStatements) \<and>
     (\<forall>i<n. statement_create_error env
              (with_pending (with_migration w key sqlStatements) (next_migration_id w)
                 (take i (sql_list w sqlStatements)))
              (next_migration_id w) (normalize_str (sql_list w sqlStatements ! i)) = None) \<and>
     (n < length (sql_list w sqlStatements) \<longrightarrow>
        statement_create_error env
          (with_pending (with_migration w key sqlStatements) (next_migration_id w)
             (take n (sql_list w sqlStatements)))
          (next_migration_id w) (normalize_str (sql_list w sqlStatements ! n)) \<noteq> None) \<and>
     MigrationStatements (runOnce env key sqlStatements w) = MigrationStatements w @ news \<and>
     length news = n \<and>
     map s_id news = [next_statement_id w..<next_statement_id w + n] \<and>
     map sql_statement news = map normalize_str (take n (sql_list w sqlStatements)) \<and>
     map migration_id news = replicate n (next_migration_id w) \<and>
     queries (runOnce env key sqlStatements w) = queries w @ qs \<and>
     length qs = k \<and>
     map fst qs = map normalize_str (take k (sql_list w sqlStatements)) \<and>
     (0 < n \<longrightarrow> 0 < k) \<and>
     (\<forall>i<k. \<exists>v. queries v = queries w @ take i qs \<and>
                snd (qs ! i) =
                  query_answer env v (normalize_str (sql_list w sqlStatements ! i))) \<and>
     (\<forall>i<k. isl (snd (qs ! i)) \<longrightarrow> k = Suc i) \<and>
     (k < n \<longrightarrow>
        isl (snd (last qs)) \<or>
        (\<exists>v e. queries v = queries w @ qs \<and>
               save_error env v
                 (marked_success
                    (pending_row (next_statement_id w + (k - 1)) (next_migration_id w)
                       (sql_list w sqlStatements ! (k - 1)))) = Some e)) \<and>
     (\<forall>j. k \<le> j \<and> j < n \<longrightarrow>
        news ! j = pending_row (next_statement_id w + j) (next_migration_id w)
                     (sql_list w sqlStatements ! j) \<and>
        status (news ! j) = ''pending'')"
    using batch_ordering[OF _ _ ids, of env sqlStatements key] by blast
next
  assume no: "\<not> (Migration_find env (with_copy w sqlStatements) (normalize_str key) = Inr None \<and>
         migration_create_error env (with_copy w sqlStatements) (normalize_str key) = None)"
  consider
    (idle) "runOnce env key sqlStatements w = with_copy w sqlStatements"
  | (thrown) e where "runOnce env key sqlStatements w =
        uncaughtException e (with_copy w sqlStatements)"
  | (refused) "runOnce env key sqlStatements w =
         logError [Text ''Failed to create migration'', Key key, Sqls (sql_list w sqlStatements)]
           (with_copy w sqlStatements)"
    using runOnce_cases[of env key sqlStatements w] no by blast
  then have "MigrationStatements (runOnce env key sqlStatements w) = MigrationStatements w \<and>
       queries (runOnce env key sqlStatements w) = queries w"
    by cases (simp_all add: with_copy_frame uncaughtException_def logError_def)
  then show "MigrationStatements (runOnce env key sqlStatements w) = MigrationStatements w"
    and "queries (runOnce env key sqlStatements w) = queries w"
    by simp_all
qed

theorem statement_ordering_witness:
  "Migration_find mysql (with_copy duplicate_column (Arr 0)) (normalize_str (Some ''two_stmts'')) =
     Inr None \<and>
   migration_create_error mysql (with_copy duplicate_column (Arr 0))
     (normalize_str (Some ''two_stmts'')) = None \<and>
   ids_below duplicate_column \<and>
   sql_list duplicate_column (Arr 0) = [Some ''SQL1'', Some ''SQL1'', Some ''SQL2''] \<and>
   map s_id (MigrationStatements (runOnce mysql (Some ''two_stmts'') (Arr 0) duplicate_column)) =
     [1, 2, 3] \<and>
   map sql_statement (MigrationStatements (runOnce mysql (Some ''two_stmts'') (Arr 0) duplicate_column)) =
     [Some ''SQL1'', Some ''SQL1'', Some ''SQL2''] \<and>
   map status (MigrationStatements (runOnce mysql (Some ''two_stmts'') (Arr 0) duplicate_column)) =
     [''success'', ''failure'', ''pending''] \<and>
   queries (runOnce mysql (Some ''two_stmts'') (Arr 0) duplicate_column) =
     [(Some ''SQL1'', Inr None), (Some ''SQL1'', Inl duplicate_column_error)] \<and>
   (\<exists>n k. k \<le> n \<and> n \<le> 3 \<and>
      length (MigrationStatements (runOnce mysql (Some ''two_stmts'') (Arr 0) duplicate_column)) = n \<and>
      length (queries (runOnce mysql (Some ''two_stmts'') (Arr 0) duplicate_column)) = k)"
proof -
  have h1: "Migration_find mysql (with_copy duplicate_column (Arr 0))
      (normalize_str (Some ''two_stmts'')) = Inr None"
    by (simp add: Migration_find_def mysql_def with_copy_def duplicate_column_def fresh_def)
  have h2: "migration_create_error mysql (with_copy duplicate_column (Arr 0))
     (normalize_str (Some ''two_stmts'')) = None"
    by (simp add: mysql_def with_copy_def duplicate_column_def fresh_def normalize_str_def
        isEmpty_def)
  have h3: "ids_below duplicate_column"
    by (simp add: ids_below_def duplicate_column_def fresh_def)
  have l: "sql_list duplicate_column (Arr 0) = [Some ''SQL1'', Some ''SQL1'', Some ''SQL2'']"
    by (simp add: sql_list_def read_array_def duplicate_column_def fresh_def)
  obtain n k qs news where kn: "k \<le> n" and n: "n \<le> length (sql_list duplicate_column (Arr 0))"
    and tab: "MigrationStatements (runOnce mysql (Some ''two_stmts'') (Arr 0) duplicate_column) =
       MigrationStatements duplicate_column @ news"
    and lnews: "length news = n"
    and q: "queries (runOnce mysql (Some ''two_stmts'') (Arr 0) duplicate_column) =
       queries duplicate_column @ qs"
    and lq: "length qs = k"
    using statement_ordering[OF h3, of mysql "Arr 0" "Some ''two_stmts''"] h1 h2 by blast
  have c: "\<exists>n k. k \<le> n \<and> n \<le> 3 \<and>
      length (MigrationStatements (runOnce mysql (Some ''two_stmts'') (Arr 0) duplicate_column)) = n \<and>
      length (queries (runOnce mysql (Some ''two_stmts'') (Arr 0) duplicate_column)) = k"
  proof -
    have n3: "n \<le> 3" using n by (simp add: l)
    have ln: "length (MigrationStatements
        (runOnce mysql (Some ''two_stmts'') (Arr 0) duplicate_column)) = n"
      unfolding tab using lnews by (simp add: duplicate_column_def fresh_def)
    have lk: "length (queries (runOnce mysql (Some ''two_stmts'') (Arr 0) duplicate_column)) = k"
      unfolding q using lq by (simp add: duplicate_column_def fresh_def)
    show ?thesis using kn n3 ln lk by blast
  qed
  have e1: "map s_id (MigrationStatements (runOnce mysql (Some ''two_stmts'') (Arr 0) duplicate_column)) =
     [1, 2, 3]"
    by (simp add: runOnce_duplicate_column)
  have e2: "map sql_statement (MigrationStatements (runOnce mysql (Some ''two_stmts'') (Arr 0) duplicate_column)) =
     [Some ''SQL1'', Some ''SQL1'', Some ''SQL2'']"
    by (simp add: runOnce_duplicate_column)
  have e3: "map status (MigrationStatements (runOnce mysql (Some ''two_stmts'') (Arr 0) duplicate_column)) =
     [''success'', ''failure'', ''pending'']"
    by (simp add: runOnce_duplicate_column)
  have e4: "queries (runOnce mysql (Some ''two_stmts'') (Arr 0) duplicate_column) =
     [(Some ''SQL1'', Inr None), (Some ''SQL1'', Inl duplicate_column_error)]"
    by (simp add: runOnce_duplicate_column)
  show ?thesis using h1 h2 h3 l e1 e2 e3 e4 c by blast
qed

section \<open>Executing one statement of a batch\<close>

text \<open>
  Claim C4. When the SQL of a statement fails, the statement gets status
  \<open>failure\<close>, \<open>error_code\<close> and \<open>error_info\<close> from the driver error, one entry is written
  to the error log, the save is attempted (the row is persisted when the database
  accepts the save), and the batch halts: the later statements of the batch play no
  part in the result, exactly one query has been sent, and no row of another
  statement has changed. When the SQL succeeds, the statement is saved with status
  \<open>success\<close> and the rest of the batch runs in the world that holds the saved row;
  when that save is refused the series does not go on. A refused save has no handler
  and is thrown as an uncaught exception.
\<close>

theorem statement_execution_outcome:
  "(query_answer env w (sql_statement st) = Inl error \<longrightarrow>
     (let failed = st\<lparr>status := ''failure'', error_code := number error,
                       error_info := Some error\<rparr>;
          entry = [Text ''Migration SQL statement failed with error code '',
                   Num (number error), Text '': '', Err error];
          w2 = w\<lparr>queries := queries w @ [(sql_statement st, Inl error)],
                 error_log := error_log w @ [entry]\<rparr>;
          w' = runPendingStatements env (st # rest) w
      in w' = runPendingStatements env [st] w \<and>
         queries w' = queries w @ [(sql_statement st, Inl error)] \<and>
         error_log w' = error_log w @ [entry] \<and>
         (save_error env w2 failed = None \<longrightarrow>
            MigrationStatements w' =
              map (\<lambda>r. if s_id r = s_id st then failed else r) (MigrationStatements w)) \<and>
         (save_error env w2 failed \<noteq> None \<longrightarrow>
            MigrationStatements w' = MigrationStatements w) \<and>
         uncaught w' =
           uncaught w @ (case save_error env w2 failed of None \<Rightarrow> [] | Some e \<Rightarrow> [e]) \<and>
         length (MigrationStatements w') = length (MigrationStatements w) \<and>
         (\<forall>j<length (MigrationStatements w).
            s_id (MigrationStatements w ! j) \<noteq> s_id st \<longrightarrow>
            MigrationStatements w' ! j = MigrationStatements w ! j))) \<and>
   (query_answer env w (sql_statement st) = Inr rows \<longrightarrow>
     (let succeeded = st\<lparr>status := ''success''\<rparr>;
          w1 = w\<lparr>queries := queries w @ [(sql_statement st, Inr rows)]\<rparr>
      in (save_error env w1 succeeded = None \<longrightarrow>
            runPendingStatements env (st # rest) w =
              runPendingStatements env rest
                (w1\<lparr>MigrationStatements :=
                      map (\<lambda>r. if s_id r = s_id st then succeeded else r)
                        (MigrationStatements w)\<rparr>)) \<and>
         (\<forall>e. save_error env w1 succeeded = Some e \<longrightarrow>
            runPendingStatements env (st # rest) w = w1\<lparr>uncaught := uncaught w @ [e]\<rparr>)))"
proof (intro conjI impI)
  assume a: "query_answer env w (sql_statement st) = Inl error"
  show "let failed = st\<lparr>status := ''failure'', error_code := number error,
                       error_info := Some error\<rparr>;
          entry = [Text ''Migration SQL statement failed with error code '',
                   Num (number error), Text '': '', Err error];
          w2 = w\<lparr>queries := queries w @ [(sql_statement st, Inl error)],
                 error_log := error_log w @ [entry]\<rparr>;
          w' = runPendingStatements env (st # rest) w
      in w' = runPendingStatements env [st] w \<and>
         queries w' = queries w @ [(sql_statement st, Inl error)] \<and>
         error_log w' = error_log w @ [entry] \<and>
         (save_error env w2 failed = None \<longrightarrow>
            MigrationStatements w' =
              map (\<lambda>r. if s_id r = s_id st then failed else r) (MigrationStatements w)) \<and>
         (save_error env w2 failed \<noteq> None \<longrightarrow>
            MigrationStatements w' = MigrationStatements w) \<and>
         uncaught w' =
           uncaught w @ (case save_error env w2 failed of None \<Rightarrow> [] | Some e \<Rightarrow> [e]) \<and>
         length (MigrationStatements w') = length (MigrationStatements w) \<and>
         (\<forall>j<length (MigrationStatements w).
            s_id (MigrationStatements w ! j) \<noteq> s_id st \<longrightarrow>
            MigrationStatements w' ! j = MigrationStatements w ! j)"
    by (cases "save_error env
             (w\<lparr>queries := queries w @ [(sql_statement st, Inl error)],
                error_log := error_log w @
                  [[Text ''Migration SQL statement failed with error code '',
                    Num (number error), Text '': '', Err error]]\<rparr>)
             (st\<lparr>status := ''failure'', error_code := number error, error_info := Some error\<rparr>)")
       (simp_all add: Let_def run_Cons run_Nil run_iterator_failure[OF a])
next
  assume a: "query_answer env w (sql_statement st) = Inr rows"
  show "let succeeded = st\<lparr>status := ''success''\<rparr>;
          w1 = w\<lparr>queries := queries w @ [(sql_statement st, Inr rows)]\<rparr>
      in (save_error env w1 succeeded = None \<longrightarrow>
            runPendingStatements env (st # rest) w =
              runPendingStatements env rest
                (w1\<lparr>MigrationStatements :=
                      map (\<lambda>r. if s_id r = s_id st then succeeded else r)
                        (MigrationStatements w)\<rparr>)) \<and>
         (\<forall>e. save_error env w1 succeeded = Some e \<longrightarrow>
            runPendingStatements env (st # rest) w = w1\<lparr>uncaught := uncaught w @ [e]\<rparr>)"
    by (cases "save_error env (w\<lparr>queries := queries w @ [(sql_statement st, Inr rows)]\<rparr>)
             (st\<lparr>status := ''success''\<rparr>)")
       (simp_all add: Let_def run_Cons run_iterator_success[OF a])
qed

theorem statement_execution_outcome_witness:
  "query_answer mysql two_stmts (sql_statement (pending_row 1 1 (Some ''SQL1''))) = Inr None \<and>
   runPendingStatements mysql
     [pending_row 1 1 (Some ''SQL1''), pending_row 2 1 (Some ''SQL1''),
      pending_row 3 1 (Some ''SQL2'')] two_stmts =
   runPendingStatements mysql
     [pending_row 2 1 (Some ''SQL1''), pending_row 3 1 (Some ''SQL2'')] first_done \<and>
   query_answer mysql first_done (sql_statement (pending_row 2 1 (Some ''SQL1''))) =
     Inl duplicate_column_error \<and>
   queries (runPendingStatements mysql
     [pending_row 2 1 (Some ''SQL1''), pending_row 3 1 (Some ''SQL2'')] first_done) =
     [(Some ''SQL1'', Inr None), (Some ''SQL1'', Inl duplicate_column_error)] \<and>
   error_log (runPendingStatements mysql
     [pending_row 2 1 (Some ''SQL1''), pending_row 3 1 (Some ''SQL2'')] first_done) =
     [[Text ''Migration SQL statement failed with error code '', Num (Some 1060), Text '': '',
       Err duplicate_column_error]] \<and>
   MigrationStatements (runPendingStatements mysql
     [pending_row 2 1 (Some ''SQL1''), pending_row 3 1 (Some ''SQL2'')] first_done) =
     [(pending_row 1 1 (Some ''SQL1''))\<lparr>status := ''success''\<rparr>,
      (pending_row 2 1 (Some ''SQL1''))\<lparr>status := ''failure'', error_code := Some 1060,
         error_info := Some duplicate_column_error\<rparr>,
      pending_row 3 1 (Some ''SQL2'')] \<and>
   query_answer read_only two_stmts (sql_statement (pending_row 1 1 (Some ''SQL1''))) = Inr None \<and>
   runPendingStatements read_only
     [pending_row 1 1 (Some ''SQL1''), pending_row 2 1 (Some ''SQL1''),
      pending_row 3 1 (Some ''SQL2'')] two_stmts =
     two_stmts\<lparr>queries := [(Some ''SQL1'', Inr None)], uncaught := [connection_error]\<rparr>"
proof -
  let ?s1 = "pending_row 1 1 (Some ''SQL1'')"
  let ?s2 = "pending_row 2 1 (Some ''SQL1'')"
  let ?s3 = "pending_row 3 1 (Some ''SQL2'')"
  have h1: "query_answer mysql two_stmts (sql_statement ?s1) = Inr None"
    by (simp add: example_defs normalize_str_def isEmpty_def)
  have h2: "query_answer mysql first_done (sql_statement ?s2) = Inl duplicate_column_error"
    by (simp add: example_defs normalize_str_def isEmpty_def)
  have h3: "query_answer read_only two_stmts (sql_statement ?s1) = Inr None"
    by (simp add: example_defs normalize_str_def isEmpty_def)
  have s1: "save_error mysql (two_stmts\<lparr>queries := queries two_stmts @ [(sql_statement ?s1, Inr None)]\<rparr>)
              (?s1\<lparr>status := ''success''\<rparr>) = None"
    by (simp add: mysql_def)
  have s2: "save_error mysql
      (first_done\<lparr>queries := queries first_done @ [(sql_statement ?s2, Inl duplicate_column_error)],
         error_log := error_log first_done @
           [[Text ''Migration SQL statement failed with error code '',
             Num (number duplicate_column_error), Text '': '', Err duplicate_column_error]]\<rparr>)
      (?s2\<lparr>status := ''failure'', error_code := number duplicate_column_error,
            error_info := Some duplicate_column_error\<rparr>) = None"
    by (simp add: mysql_def)
  have s3: "save_error read_only
      (two_stmts\<lparr>queries := queries two_stmts @ [(sql_statement ?s1, Inr None)]\<rparr>)
      (?s1\<lparr>status := ''success''\<rparr>) = Some connection_error"
    by (simp add: read_only_def)
  note t1 = statement_execution_outcome[of mysql two_stmts ?s1 duplicate_column_error
      "[?s2, ?s3]" None, unfolded Let_def, THEN conjunct2, rule_format, OF h1,
      THEN conjunct1, rule_format, OF s1]
  note t2 = statement_execution_outcome[of mysql first_done ?s2 duplicate_column_error
      "[?s3]" None, unfolded Let_def, THEN conjunct1, rule_format, OF h2]
  note t3 = statement_execution_outcome[of read_only two_stmts ?s1 duplicate_column_error
      "[?s2, ?s3]" None, unfolded Let_def, THEN conjunct2, rule_format, OF h3,
      THEN conjunct2, rule_format, OF s3]
  have c1: "runPendingStatements mysql [?s1, ?s2, ?s3] two_stmts =
      runPendingStatements mysql [?s2, ?s3] first_done"
    unfolding t1 by (simp add: example_defs normalize_str_def isEmpty_def)
  note t2q = t2[THEN conjunct2, THEN conjunct1]
  note t2l = t2[THEN conjunct2, THEN conjunct2, THEN conjunct1]
  note t2t = t2[THEN conjunct2, THEN conjunct2, THEN conjunct2, THEN conjunct1, rule_format, OF s2]
  have c2: "queries (runPendingStatements mysql [?s2, ?s3] first_done) =
     [(Some ''SQL1'', Inr None), (Some ''SQL1'', Inl duplicate_column_error)]"
    unfolding t2q
    by (simp add: first_done_def two_stmts_def pending_row_def normalize_str_def isEmpty_def)
  have c3: "error_log (runPendingStatements mysql [?s2, ?s3] first_done) =
     [[Text ''Migration SQL statement failed with error code '', Num (Some 1060), Text '': '',
       Err duplicate_column_error]]"
    unfolding t2l by (simp add: first_done_def two_stmts_def duplicate_column_error_def)
  have c4: "MigrationStatements (runPendingStatements mysql [?s2, ?s3] first_done) =
     [?s1\<lparr>status := ''success''\<rparr>,
      ?s2\<lparr>status := ''failure'', error_code := Some 1060,
         error_info := Some duplicate_column_error\<rparr>, ?s3]"
    unfolding t2t
    by (simp add: first_done_def two_stmts_def pending_row_def duplicate_column_error_def)
  have c5: "runPendingStatements read_only [?s1, ?s2, ?s3] two_stmts =
     two_stmts\<lparr>queries := [(Some ''SQL1'', Inr None)], uncaught := [connection_error]\<rparr>"
    unfolding t3 by (simp add: example_defs normalize_str_def isEmpty_def)
  show ?thesis
    using h1 h2 h3 c1 c2 c3 c4 c5 by blast
qed

section \<open>Failure to create the Migration row\<close>

text \<open>
  Claim C5. When \<open>Migration.create\<close> is refused, the failure is written to the error
  log and the call stops: no Statement row is created and no SQL is sent. The first
  part is the continuation that \<open>runOnce\<close> hands to \<open>runIfNotExists\<close>, in whatever
  world it runs (a concurrent call may have inserted the key after the lookup, and the
  uniqueness constraint then refuses the insert); the second part is a whole call of
  \<open>runOnce\<close> whose lookup found nothing.
\<close>

theorem migration_creation_failure_stops:
  "(migration_create_error env w (normalize_str key) = Some e \<longrightarrow>
      runOnce_create env key copy w =
        logError [Text ''Failed to create migration'', Key key, Sqls (read_array w copy)] w) \<and>
   (Migration_find env (with_copy w sqlStatements) (normalize_str key) = Inr None \<and>
    migration_create_error env (with_copy w sqlStatements) (normalize_str key) = Some e \<longrightarrow>
      runOnce env key sqlStatements w =
        logError [Text ''Failed to create migration'', Key key, Sqls (sql_list w sqlStatements)]
          (with_copy w sqlStatements) \<and>
      Migrations (runOnce env key sqlStatements w) = Migrations w \<and>
      MigrationStatements (runOnce env key sqlStatements w) = MigrationStatements w \<and>
      queries (runOnce env key sqlStatements w) = queries w \<and>
      error_log (runOnce env key sqlStatements w) =
        error_log w @
          [[Text ''Failed to create migration'', Key key, Sqls (sql_list w sqlStatements)]])"
proof (intro conjI impI)
  assume "migration_create_error env w (normalize_str key) = Some e"
  then show "runOnce_create env key copy w =
        logError [Text ''Failed to create migration'', Key key, Sqls (read_array w copy)] w"
    by (simp add: runOnce_create_def Migration_create_def)
next
  assume a: "Migration_find env (with_copy w sqlStatements) (normalize_str key) = Inr None \<and>
    migration_create_error env (with_copy w sqlStatements) (normalize_str key) = Some e"
  then have r: "runOnce env key sqlStatements w =
        logError [Text ''Failed to create migration'', Key key, Sqls (sql_list w sqlStatements)]
          (with_copy w sqlStatements)"
    by (simp add: runOnce_unfold runIfNotExists_def runOnce_create_def Migration_create_def
        with_copy_frame)
  show "runOnce env key sqlStatements w =
        logError [Text ''Failed to create migration'', Key key, Sqls (sql_list w sqlStatements)]
          (with_copy w sqlStatements)" by (rule r)
  show "Migrations (runOnce env key sqlStatements w) = Migrations w"
    by (simp add: r logError_def with_copy_frame)
  show "MigrationStatements (runOnce env key sqlStatements w) = MigrationStatements w"
    by (simp add: r logError_def with_copy_frame)
  show "queries (runOnce env key sqlStatements w) = queries w"
    by (simp add: r logError_def with_copy_frame)
  show "error_log (runOnce env key sqlStatements w) =
        error_log w @
          [[Text ''Failed to create migration'', Key key, Sqls (sql_list w sqlStatements)]]"
    by (simp add: r logError_def with_copy_frame)
qed

theorem migration_creation_failure_stops_witness:
  "migration_create_error mysql taken (normalize_str (Some ''add_col'')) = Some duplicate_entry_error \<and>
   runOnce_create mysql (Some ''add_col'') 0 taken =
     taken\<lparr>error_log := [[Text ''Failed to create migration'', Key (Some ''add_col''), Sqls []]]\<rparr> \<and>
   Migration_find mysql (with_copy fresh (Str (Some ''SQL1''))) (normalize_str (Some '''')) = Inr None \<and>
   migration_create_error mysql (with_copy fresh (Str (Some ''SQL1''))) (normalize_str (Some ''''))
     = Some not_null_error \<and>
   runOnce mysql (Some '''') (Str (Some ''SQL1'')) fresh =
     fresh\<lparr>error_log := [[Text ''Failed to create migration'', Key (Some ''''), Sqls [Some ''SQL1'']]],
           arrays := [[Some ''SQL1'']]\<rparr>"
proof -
  have h1: "migration_create_error mysql taken (normalize_str (Some ''add_col'')) = Some duplicate_entry_error"
    by (simp add: mysql_def taken_def normalize_str_def isEmpty_def)
  have h2: "Migration_find mysql (with_copy fresh (Str (Some ''SQL1''))) (normalize_str (Some '''')) = Inr None \<and>
   migration_create_error mysql (with_copy fresh (Str (Some ''SQL1''))) (normalize_str (Some ''''))
     = Some not_null_error"
    by (simp add: mysql_def fresh_def normalize_str_def isEmpty_def Migration_find_def with_copy_def)
  show ?thesis
    using h1 h2
      migration_creation_failure_stops[of mysql taken "Some ''add_col''" duplicate_entry_error 0
        "Str (Some ''SQL1'')", THEN conjunct1, rule_format, OF h1]
      migration_creation_failure_stops[of mysql fresh "Some ''''" not_null_error 0
        "Str (Some ''SQL1'')", THEN conjunct2, rule_format, OF h2]
    by (simp add: logError_def with_copy_def sql_list_def fresh_def taken_def read_array_def)
qed

section \<open>Normalisation of the key\<close>

text \<open>
  Claim C6. An empty or absent key is normalised to the absent value, a non-empty key
  is left alone, and no key is normalised to the empty string. The existence check
  sees the normalised key: it treats the empty string as the absent value, and a row
  whose key equals the normalised key stops \<open>runOnce\<close>. The only Migration row that
  \<open>runOnce\<close> can add carries the normalised key, so an empty-string key is never
  stored as the empty string.
\<close>

theorem key_normalization:
  "normalize_str None = None \<and> normalize_str (Some []) = None \<and>
   normalize_str key \<noteq> Some [] \<and>
   (key \<noteq> None \<and> key \<noteq> Some [] \<longrightarrow> normalize_str key = key) \<and>
   runIfNotExists env (Some []) callback w = runIfNotExists env None callback w \<and>
   (m \<in> set (Migrations w) \<and> migration_key m = normalize_str key \<and>
    find_error env (with_copy w sqlStatements) (normalize_str key) = None \<longrightarrow>
      runOnce env key sqlStatements w = with_copy w sqlStatements) \<and>
   (Migrations (runOnce env key sqlStatements w) = Migrations w \<or>
    Migrations (runOnce env key sqlStatements w) =
      Migrations w @ [\<lparr>m_id = next_migration_id w, migration_key = normalize_str key\<rparr>])"
proof (intro conjI impI)
  show "normalize_str None = None" "normalize_str (Some []) = None"
    by (simp_all add: normalize_str_simps)
  show "normalize_str key \<noteq> Some []" by (rule normalize_str_not_empty)
  show "normalize_str key = key" if "key \<noteq> None \<and> key \<noteq> Some []"
    using that by (cases key) (auto simp: normalize_str_simps)
  show "runIfNotExists env (Some []) callback w = runIfNotExists env None callback w"
    by (simp add: runIfNotExists_def normalize_str_simps)
  show "runOnce env key sqlStatements w = with_copy w sqlStatements"
    if "m \<in> set (Migrations w) \<and> migration_key m = normalize_str key \<and>
        find_error env (with_copy w sqlStatements) (normalize_str key) = None"
  proof -
    have "List.find (\<lambda>m. migration_key m = normalize_str key) (Migrations w) \<noteq> None"
      using that find_existing by blast
    then show ?thesis
      using that
      by (auto simp: runOnce_unfold runIfNotExists_def Migration_find_def with_copy_frame)
  qed
  show "Migrations (runOnce env key sqlStatements w) = Migrations w \<or>
    Migrations (runOnce env key sqlStatements w) =
      Migrations w @ [\<lparr>m_id = next_migration_id w, migration_key = normalize_str key\<rparr>]"
    using runOnce_frame by blast
qed

theorem key_normalization_witness:
  "Some ''add_col'' \<noteq> None \<and> Some ''add_col'' \<noteq> Some [] \<and>
   normalize_str (Some ''add_col'') = Some ''add_col'' \<and>
   \<lparr>m_id = 1, migration_key = Some ''add_col''\<rparr> \<in> set (Migrations taken) \<and>
   find_error mysql (with_copy taken (Str (Some ''SQL1''))) (normalize_str (Some ''add_col'')) = None \<and>
   runOnce mysql (Some ''add_col'') (Str (Some ''SQL1'')) taken = taken\<lparr>arrays := [[Some ''SQL1'']]\<rparr> \<and>
   normalize_str (Some '''') = None \<and>
   Migrations (runOnce permissive (Some '''') (Str (Some ''SQL1'')) fresh) =
     [\<lparr>m_id = 1, migration_key = None\<rparr>]"
proof -
  have h1: "Some ''add_col'' \<noteq> None \<and> Some ''add_col'' \<noteq> Some []" by simp
  have h2: "\<lparr>m_id = 1, migration_key = Some ''add_col''\<rparr> \<in> set (Migrations taken) \<and>
    migration_key \<lparr>m_id = 1, migration_key = Some ''add_col''\<rparr> = normalize_str (Some ''add_col'') \<and>
    find_error mysql (with_copy taken (Str (Some ''SQL1''))) (normalize_str (Some ''add_col'')) = None"
    by (simp add: taken_def fresh_def mysql_def normalize_str_def isEmpty_def)
  note t = key_normalization[of "Some ''add_col''" mysql id taken
      "\<lparr>m_id = 1, migration_key = Some ''add_col''\<rparr>" "Str (Some ''SQL1'')"]
  have c1: "normalize_str (Some ''add_col'') = Some ''add_col''"
    using t h1 by blast
  have c2: "runOnce mysql (Some ''add_col'') (Str (Some ''SQL1'')) taken =
      with_copy taken (Str (Some ''SQL1''))"
    using t h2 by blast
  have c3: "Migrations (runOnce permissive (Some '''') (Str (Some ''SQL1'')) fresh) =
     [\<lparr>m_id = 1, migration_key = None\<rparr>]"
    by (simp add: engine_defs permissive_def fresh_def)
  show ?thesis
    using h1 h2 c1 c2 c3
    by (simp add: with_copy_def sql_list_def taken_def fresh_def normalize_str_simps)
qed

section \<open>The argument of runOnce\<close>

text \<open>
  Claim C7. A single SQL string is handled exactly as the one-element array holding
  it. \<open>runOnce\<close> allocates one new array, its copy of the argument, and changes no
  array that existed before the call: the caller's array is as it was.
\<close>

theorem input_copy:
  "(r < length (arrays w) \<and> arrays w ! r = [s] \<longrightarrow>
      runOnce env key (Str s) w = runOnce env key (Arr r) w) \<and>
   arrays (runOnce env key sqlStatements w) = arrays w @ [sql_list w sqlStatements] \<and>
   (r < length (arrays w) \<longrightarrow>
      arrays (runOnce env key (Arr r) w) ! r = arrays w ! r \<and>
      arrays (runOnce env key (Arr r) w) = arrays w @ [arrays w ! r])"
proof (intro conjI impI)
  assume "r < length (arrays w) \<and> arrays w ! r = [s]"
  then have "with_copy w (Str s) = with_copy w (Arr r)"
    by (simp add: with_copy_def sql_list_def read_array_def)
  then show "runOnce env key (Str s) w = runOnce env key (Arr r) w"
    by (simp add: runOnce_unfold)
next
  show "arrays (runOnce env key sqlStatements w) = arrays w @ [sql_list w sqlStatements]"
    using runOnce_frame by blast
next
  assume r: "r < length (arrays w)"
  have a: "arrays (runOnce env key (Arr r) w) = arrays w @ [sql_list w (Arr r)]"
    using runOnce_frame by blast
  show "arrays (runOnce env key (Arr r) w) ! r = arrays w ! r"
    using r by (simp add: a nth_append)
  show "arrays (runOnce env key (Arr r) w) = arrays w @ [arrays w ! r]"
    using r by (simp add: a sql_list_def read_array_def)
qed

theorem input_copy_witness:
  "0 < length (arrays callers_array) \<and> arrays callers_array ! 0 = [Some ''SQL1''] \<and>
   runOnce mysql (Some ''m1'') (Str (Some ''SQL1'')) callers_array =
     runOnce mysql (Some ''m1'') (Arr 0) callers_array \<and>
   arrays (runOnce mysql (Some ''m1'') (Arr 0) callers_array) ! 0 = [Some ''SQL1''] \<and>
   arrays (runOnce mysql (Some ''m1'') (Arr 0) callers_array) = [[Some ''SQL1''], [Some ''SQL1'']] \<and>
   MigrationStatements (runOnce mysql (Some ''m1'') (Arr 0) callers_array) =
     [\<lparr>s_id = 1, migration_id = 1, sql_statement = Some ''SQL1'', status = ''success'',
       error_code = None, error_info = None\<rparr>]"
proof -
  have h: "0 < length (arrays callers_array) \<and> arrays callers_array ! 0 = [Some ''SQL1'']"
    by (simp add: callers_array_def fresh_def)
  note t = input_copy[of 0 callers_array "Some ''SQL1''" mysql "Some ''m1''" "Arr 0"]
  have c1: "runOnce mysql (Some ''m1'') (Str (Some ''SQL1'')) callers_array =
     runOnce mysql (Some ''m1'') (Arr 0) callers_array"
    using t h by blast
  have c2: "arrays (runOnce mysql (Some ''m1'') (Arr 0) callers_array) ! 0 = arrays callers_array ! 0 \<and>
      arrays (runOnce mysql (Some ''m1'') (Arr 0) callers_array) =
        arrays callers_array @ [arrays callers_array ! 0]"
    using t h by blast
  have c3: "MigrationStatements (runOnce mysql (Some ''m1'') (Arr 0) callers_array) =
     [\<lparr>s_id = 1, migration_id = 1, sql_statement = Some ''SQL1'', status = ''success'',
       error_code = None, error_info = None\<rparr>]"
    by (simp add: engine_defs mysql_def callers_array_def fresh_def)
  show ?thesis
    using h c1 c2 c3 by (simp add: callers_array_def fresh_def)
qed

section \<open>Bootstrap\<close>

text \<open>
  Claim C8. When the creation of either relation fails, \<open>bootstrap\<close> logs the error
  and its result does not depend on the callback: the callback is not run. When
  both relations are created, the callback runs once, in a world where both relations
  exist and the catalogue query for the foreign key has been sent but its answer has
  not been handled; the step that adds the constraint runs after the callback has
  returned. This holds whatever the answer to the catalogue query is.
\<close>

theorem bootstrap_callback_contract:
  "(sync_error env w ''Migrations'' = Some e \<longrightarrow>
      bootstrap env callback w = logError [Text ''Failed to run Migration.sync'', Err e] w) \<and>
   (model_sync env ''Migrations'' w = Inr w1 \<and>
    sync_error env w1 ''MigrationStatements'' = Some e \<longrightarrow>
      bootstrap env callback w =
        logError [Text ''Failed to run MigrationStatement.sync'', Err e] w1) \<and>
   (model_sync env ''Migrations'' w = Inr w1 \<and>
    model_sync env ''MigrationStatements'' w1 = Inr w2 \<longrightarrow>
      ''Migrations'' \<in> set (relations w2) \<and> ''MigrationStatements'' \<in> set (relations w2) \<and>
      bootstrap env (Some cb) w =
        bootstrap_constraint_step env (query_answer env w2 (Some fk_select))
          (cb (w2\<lparr>queries := queries w2 @
                    [(Some fk_select, query_answer env w2 (Some fk_select))]\<rparr>)) \<and>
      bootstrap env None w =
        bootstrap_constraint_step env (query_answer env w2 (Some fk_select))
          (w2\<lparr>queries := queries w2 @
                    [(Some fk_select, query_answer env w2 (Some fk_select))]\<rparr>))"
proof (intro conjI impI)
  assume "sync_error env w ''Migrations'' = Some e"
  then show "bootstrap env callback w = logError [Text ''Failed to run Migration.sync'', Err e] w"
    by (simp add: bootstrap_def model_sync_def)
next
  assume "model_sync env ''Migrations'' w = Inr w1 \<and>
    sync_error env w1 ''MigrationStatements'' = Some e"
  then show "bootstrap env callback w =
        logError [Text ''Failed to run MigrationStatement.sync'', Err e] w1"
    by (simp add: bootstrap_def) (simp add: model_sync_def)
next
  assume a: "model_sync env ''Migrations'' w = Inr w1 \<and>
    model_sync env ''MigrationStatements'' w1 = Inr w2"
  show "''Migrations'' \<in> set (relations w2)"
    using a model_sync_relations[of env "''Migrations''" w w1]
      model_sync_relations[of env "''MigrationStatements''" w1 w2] by blast
  show "''MigrationStatements'' \<in> set (relations w2)"
    using a model_sync_relations[of env "''MigrationStatements''" w1 w2] by blast
  show "bootstrap env (Some cb) w =
        bootstrap_constraint_step env (query_answer env w2 (Some fk_select))
          (cb (w2\<lparr>queries := queries w2 @
                    [(Some fk_select, query_answer env w2 (Some fk_select))]\<rparr>))"
    using a by (simp add: bootstrap_def executeSql_def Let_def)
  show "bootstrap env None w =
        bootstrap_constraint_step env (query_answer env w2 (Some fk_select))
          (w2\<lparr>queries := queries w2 @
                    [(Some fk_select, query_answer env w2 (Some fk_select))]\<rparr>)"
    using a by (simp add: bootstrap_def executeSql_def Let_def)
qed

theorem bootstrap_callback_contract_witness:
  "sync_error offline fresh ''Migrations'' = Some connection_error \<and>
   bootstrap offline (Some (logError [Text ''ready''])) fresh =
     fresh\<lparr>error_log := [[Text ''Failed to run Migration.sync'', Err connection_error]]\<rparr> \<and>
   model_sync statements_table_refused ''Migrations'' fresh =
     Inr (fresh\<lparr>relations := [''Migrations'']\<rparr>) \<and>
   sync_error statements_table_refused (fresh\<lparr>relations := [''Migrations'']\<rparr>)
     ''MigrationStatements'' = Some connection_error \<and>
   bootstrap statements_table_refused (Some (logError [Text ''ready''])) fresh =
     fresh\<lparr>relations := [''Migrations''],
           error_log := [[Text ''Failed to run MigrationStatement.sync'', Err connection_error]]\<rparr> \<and>
   model_sync no_catalogue ''Migrations'' fresh = Inr (fresh\<lparr>relations := [''Migrations'']\<rparr>) \<and>
   model_sync no_catalogue ''MigrationStatements'' (fresh\<lparr>relations := [''Migrations'']\<rparr>) =
     Inr synced \<and>
   bootstrap no_catalogue (Some (logError [Text ''ready''])) fresh =
     synced\<lparr>queries := [(Some fk_select, Inl connection_error)],
            error_log := [[Text ''ready'']], uncaught := [connection_error]\<rparr>"
proof -
  have h1: "sync_error offline fresh ''Migrations'' = Some connection_error"
    by (simp add: offline_def)
  have h2: "model_sync statements_table_refused ''Migrations'' fresh =
     Inr (fresh\<lparr>relations := [''Migrations'']\<rparr>) \<and>
   sync_error statements_table_refused (fresh\<lparr>relations := [''Migrations'']\<rparr>)
     ''MigrationStatements'' = Some connection_error"
    by (simp add: statements_table_refused_def permissive_def model_sync_def fresh_def)
  have h3: "model_sync no_catalogue ''Migrations'' fresh = Inr (fresh\<lparr>relations := [''Migrations'']\<rparr>) \<and>
   model_sync no_catalogue ''MigrationStatements'' (fresh\<lparr>relations := [''Migrations'']\<rparr>) =
     Inr synced"
    by (simp add: no_catalogue_def permissive_def model_sync_def fresh_def synced_def)
  have c1: "bootstrap offline (Some (logError [Text ''ready''])) fresh =
      logError [Text ''Failed to run Migration.sync'', Err connection_error] fresh"
    using bootstrap_callback_contract[of offline fresh connection_error
        "Some (logError [Text ''ready''])"] h1 by blast
  have c2: "bootstrap statements_table_refused (Some (logError [Text ''ready''])) fresh =
      logError [Text ''Failed to run MigrationStatement.sync'', Err connection_error]
        (fresh\<lparr>relations := [''Migrations'']\<rparr>)"
    using bootstrap_callback_contract[of statements_table_refused fresh connection_error
        "Some (logError [Text ''ready''])" "fresh\<lparr>relations := [''Migrations'']\<rparr>"] h2 by blast
  have c3: "bootstrap no_catalogue (Some (logError [Text ''ready''])) fresh =
        bootstrap_constraint_step no_catalogue (query_answer no_catalogue synced (Some fk_select))
          (logError [Text ''ready''] (synced\<lparr>queries := queries synced @
                    [(Some fk_select, query_answer no_catalogue synced (Some fk_select))]\<rparr>))"
    using bootstrap_callback_contract[of no_catalogue fresh connection_error
        "Some (logError [Text ''ready''])" "fresh\<lparr>relations := [''Migrations'']\<rparr>" synced
        "logError [Text ''ready'']"] h3 by blast
  have r1: "bootstrap offline (Some (logError [Text ''ready''])) fresh =
     fresh\<lparr>error_log := [[Text ''Failed to run Migration.sync'', Err connection_error]]\<rparr>"
    unfolding c1 by (simp add: logError_def fresh_def)
  have r2: "bootstrap statements_table_refused (Some (logError [Text ''ready''])) fresh =
     fresh\<lparr>relations := [''Migrations''],
           error_log := [[Text ''Failed to run MigrationStatement.sync'', Err connection_error]]\<rparr>"
    unfolding c2 by (simp add: logError_def fresh_def)
  have r3: "bootstrap no_catalogue (Some (logError [Text ''ready''])) fresh =
     synced\<lparr>queries := [(Some fk_select, Inl connection_error)],
            error_log := [[Text ''ready'']], uncaught := [connection_error]\<rparr>"
    unfolding c3
    by (simp add: logError_def bootstrap_constraint_step_def uncaughtException_def
        no_catalogue_def permissive_def synced_def fresh_def)
  show ?thesis
    using h1 h2 h3 r1 r2 r3 by blast
qed

section \<open>A failed lookup\<close>

text \<open>
  Claim C9 as stated says that a failed lookup is a silent dead end. The lookup has
  no \<open>.error\<close> handler, so the emitter throws the error: on a database that is out of
  reach, the call ends in an uncaught exception.
\<close>

theorem lookup_failure_is_not_silent:
  "uncaught (runOnce offline (Some ''add_col'') (Str (Some ''SQL1'')) fresh) = [connection_error]"
  by (simp add: engine_defs offline_def fresh_def)

text \<open>
  Claim C9, as amended. \<open>runIfNotExists\<close> registers a success continuation only on
  \<open>Migration.find\<close>. When the lookup itself fails, \<open>runOnce\<close> takes its private copy
  of the argument and does nothing else of its own: no Migration row, no Statement
  row, no SQL sent, nothing written to the error log. The error is not handled: it is
  thrown as an uncaught exception, once, after \<open>runOnce\<close> has returned to its caller.
\<close>

theorem lookup_failure_is_thrown:
  assumes "find_error env (with_copy w sqlStatements) (normalize_str key) = Some e"
  shows "runOnce env key sqlStatements w = uncaughtException e (with_copy w sqlStatements) \<and>
         uncaught (runOnce env key sqlStatements w) = uncaught w @ [e] \<and>
         Migrations (runOnce env key sqlStatements w) = Migrations w \<and>
         MigrationStatements (runOnce env key sqlStatements w) = MigrationStatements w \<and>
         queries (runOnce env key sqlStatements w) = queries w \<and>
         error_log (runOnce env key sqlStatements w) = error_log w"
proof -
  have "runOnce env key sqlStatements w = uncaughtException e (with_copy w sqlStatements)"
    using assms by (simp add: runOnce_unfold runIfNotExists_def Migration_find_def)
  then show ?thesis by (simp add: with_copy_frame uncaughtException_def)
qed

theorem lookup_failure_is_thrown_witness:
  "find_error offline (with_copy fresh (Str (Some ''ALTER TABLE T ADD COLUMN c INT'')))
     (normalize_str (Some ''add_col'')) = Some connection_error \<and>
   runOnce offline (Some ''add_col'') (Str (Some ''ALTER TABLE T ADD COLUMN c INT'')) fresh =
     fresh\<lparr>uncaught := [connection_error],
           arrays := [[Some ''ALTER TABLE T ADD COLUMN c INT'']]\<rparr> \<and>
   Migrations (runOnce offline (Some ''add_col'') (Str (Some ''ALTER TABLE T ADD COLUMN c INT'')) fresh) = [] \<and>
   error_log (runOnce offline (Some ''add_col'') (Str (Some ''ALTER TABLE T ADD COLUMN c INT'')) fresh) = []"
proof -
  have h: "find_error offline (with_copy fresh (Str (Some ''ALTER TABLE T ADD COLUMN c INT'')))
     (normalize_str (Some ''add_col'')) = Some connection_error"
    by (simp add: offline_def)
  show ?thesis
    using h lookup_failure_is_thrown[OF h]
    by (simp add: with_copy_def sql_list_def fresh_def uncaughtException_def)
qed

section \<open>Normalisation of the SQL texts\<close>

text \<open>
  Claim C10. \<open>createPendingStatements\<close> inserts the rows of a prefix of its SQL
  texts, each text passed through \<open>normalize\<close>, and hands them to its callback. No
  inserted row holds the empty string. When the database enforces the not-null
  constraint declared on \<open>sql_statement\<close>, the insertion of an empty or absent text is
  refused: the prefix ends at the first such text at the latest, and no inserted row
  holds an absent text.
\<close>

theorem empty_sql_is_refused:
  "\<exists>n\<le>length sqls.
     createPendingStatements env m sqls callback w =
       callback (pending_rows (next_statement_id w) (m_id m) (take n sqls))
         (with_pending w (m_id m) (take n sqls)) \<and>
     MigrationStatements (with_pending w (m_id m) (take n sqls)) =
       MigrationStatements w @ pending_rows (next_statement_id w) (m_id m) (take n sqls) \<and>
     map sql_statement (pending_rows (next_statement_id w) (m_id m) (take n sqls)) =
       map normalize_str (take n sqls) \<and>
     (\<forall>r\<in>set (pending_rows (next_statement_id w) (m_id m) (take n sqls)).
        sql_statement r \<noteq> Some []) \<and>
     ((\<forall>v mid. statement_create_error env v mid None \<noteq> None) \<longrightarrow>
        (\<forall>i<length sqls. isEmpty (sqls ! i) \<longrightarrow> n \<le> i) \<and>
        (\<forall>r\<in>set (pending_rows (next_statement_id w) (m_id m) (take n sqls)).
           sql_statement r \<noteq> None))"
proof -
  obtain n where n: "n \<le> length sqls"
    and res: "createPendingStatements env m sqls callback w =
       callback (pending_rows (next_statement_id w) (m_id m) (take n sqls))
         (with_pending w (m_id m) (take n sqls))"
    and acc: "\<forall>i<n. statement_create_error env (with_pending w (m_id m) (take i sqls)) (m_id m)
              (normalize_str (sqls ! i)) = None"
    using create_result[of sqls env m callback w] by blast
  have enforced: "(\<forall>i<length sqls. isEmpty (sqls ! i) \<longrightarrow> n \<le> i) \<and>
        (\<forall>r\<in>set (pending_rows (next_statement_id w) (m_id m) (take n sqls)).
           sql_statement r \<noteq> None)"
    if nn: "\<forall>v mid. statement_create_error env v mid None \<noteq> None"
  proof -
    have ne: "\<not> isEmpty (sqls ! i)" if "i < n" for i
    proof
      assume "isEmpty (sqls ! i)"
      then have "normalize_str (sqls ! i) = None" by (simp add: normalize_str_None_iff)
      then show False using acc that nn by metis
    qed
    have a: "\<forall>i<length sqls. isEmpty (sqls ! i) \<longrightarrow> n \<le> i"
      using ne by (meson not_le_imp_less)
    have b: "\<forall>r\<in>set (pending_rows (next_statement_id w) (m_id m) (take n sqls)).
           sql_statement r \<noteq> None"
    proof
      fix r assume "r \<in> set (pending_rows (next_statement_id w) (m_id m) (take n sqls))"
      then obtain i where i: "i < n"
        and r: "r = pending_row (next_statement_id w + i) (m_id m) (sqls ! i)"
        using n by (auto simp: in_set_conv_nth length_pending_rows pending_rows_nth)
      show "sql_statement r \<noteq> None"
        using ne[OF i] by (simp add: r pending_row_def normalize_str_None_iff)
    qed
    show ?thesis using a b by simp
  qed
  show ?thesis
    apply (rule exI[of _ n])
    using n res enforced pending_rows_not_empty_text
    by (simp add: with_pending_frame pending_rows_sql)
qed

theorem empty_sql_is_refused_witness:
  "(\<forall>v mid. statement_create_error mysql v mid None \<noteq> None) \<and>
   isEmpty ([Some ''SQL1'', Some '''', Some ''SQL2''] ! 1) \<and>
   (\<exists>n\<le>1. createPendingStatements mysql \<lparr>m_id = 1, migration_key = Some ''m1''\<rparr>
        [Some ''SQL1'', Some '''', Some ''SQL2''] (\<lambda>statements v. v) fresh =
      with_pending fresh 1 (take n [Some ''SQL1'', Some '''', Some ''SQL2''])) \<and>
   MigrationStatements
     (createPendingStatements mysql \<lparr>m_id = 1, migration_key = Some ''m1''\<rparr>
        [Some ''SQL1'', Some '''', Some ''SQL2''] (\<lambda>statements v. v) fresh) =
     [\<lparr>s_id = 1, migration_id = 1, sql_statement = Some ''SQL1'', status = ''pending'',
       error_code = None, error_info = None\<rparr>]"
proof -
  have h: "\<forall>v mid. statement_create_error mysql v mid None \<noteq> None"
    by (simp add: mysql_def)
  have e: "isEmpty ([Some ''SQL1'', Some '''', Some ''SQL2''] ! 1)"
    by (simp add: isEmpty_def)
  obtain n where n: "n \<le> length [Some ''SQL1'', Some '''', Some ''SQL2'']"
    and res: "createPendingStatements mysql \<lparr>m_id = 1, migration_key = Some ''m1''\<rparr>
        [Some ''SQL1'', Some '''', Some ''SQL2''] (\<lambda>statements v. v) fresh =
      with_pending fresh (m_id \<lparr>m_id = 1, migration_key = Some ''m1''\<rparr>)
        (take n [Some ''SQL1'', Some '''', Some ''SQL2''])"
    and stop: "(\<forall>v mid. statement_create_error mysql v mid None \<noteq> None) \<longrightarrow>
        (\<forall>i<length [Some ''SQL1'', Some '''', Some ''SQL2''].
            isEmpty ([Some ''SQL1'', Some '''', Some ''SQL2''] ! i) \<longrightarrow> n \<le> i)"
    using empty_sql_is_refused[of "[Some ''SQL1'', Some '''', Some ''SQL2'']" mysql
        "\<lparr>m_id = 1, migration_key = Some ''m1''\<rparr>" "\<lambda>statements v. v" fresh]
    by blast
  have "n \<le> 1" using stop h e by force
  then have c: "\<exists>n\<le>1. createPendingStatements mysql \<lparr>m_id = 1, migration_key = Some ''m1''\<rparr>
        [Some ''SQL1'', Some '''', Some ''SQL2''] (\<lambda>statements v. v) fresh =
      with_pending fresh 1 (take n [Some ''SQL1'', Some '''', Some ''SQL2''])"
    using res by auto
  have d: "MigrationStatements
     (createPendingStatements mysql \<lparr>m_id = 1, migration_key = Some ''m1''\<rparr>
        [Some ''SQL1'', Some '''', Some ''SQL2''] (\<lambda>statements v. v) fresh) =
     [\<lparr>s_id = 1, migration_id = 1, sql_statement = Some ''SQL1'', status = ''pending'',
       error_code = None, error_info = None\<rparr>]"
    unfolding createPendingStatements_empty_statement by simp
  show ?thesis
    using h e c d by blast
qed

end
